theory Spec2Isabelle
  imports Complex_Main
begin

section \<open>Python values\<close>

text \<open>
  Optional strings of the source (\<^verbatim>\<open>Optional[str]\<close>) are \<open>string option\<close>. Python tests them
  by truthiness (\<^verbatim>\<open>if self.version:\<close>): \<^verbatim>\<open>None\<close> and the empty string are both false.
  A field is called present when it is truthy and absent (or missing) otherwise.
\<close>

definition truthy :: "string option \<Rightarrow> bool" where
  "truthy x = (case x of None \<Rightarrow> False | Some s \<Rightarrow> s \<noteq> [])"

text \<open>\<^verbatim>\<open>f"{x}"\<close> for an optional string: \<^verbatim>\<open>None\<close> is rendered as the word None.\<close>

definition fmt :: "string option \<Rightarrow> string" where
  "fmt x = (case x of None \<Rightarrow> ''None'' | Some s \<Rightarrow> s)"

text \<open>\<^verbatim>\<open>x or d\<close> for an optional string \<open>x\<close> and a string \<open>d\<close>.\<close>

definition py_or :: "string option \<Rightarrow> string \<Rightarrow> string" where
  "py_or x d = (case x of None \<Rightarrow> d | Some s \<Rightarrow> if s = [] then d else s)"

text \<open>The single quote character, for the messages that quote a name.\<close>

definition sq :: string where
  "sq = [CHR 0x27]"

text \<open>The exceptions of the source, each with its message (\<^verbatim>\<open>str(e)\<close>).\<close>

datatype exn = ConfigError string | InstallerError string | OtherException string

fun str_exn :: "exn \<Rightarrow> string" where
  "str_exn (ConfigError m) = m"
| "str_exn (InstallerError m) = m"
| "str_exn (OtherException m) = m"

text \<open>Decimal rendering of an integer (\<^verbatim>\<open>str(n)\<close>).\<close>

definition digit_char :: "nat \<Rightarrow> char" where
  "digit_char d = ''0123456789'' ! d"

function str_nat :: "nat \<Rightarrow> string" where
  "str_nat n = (if n < 10 then [digit_char n] else str_nat (n div 10) @ [digit_char (n mod 10)])"
  by pat_completeness auto
termination
  by (relation "measure id") auto

declare str_nat.simps [simp del]

definition str_int :: "int \<Rightarrow> string" where
  "str_int i = (if i < 0 then CHR ''-'' # str_nat (nat (- i)) else str_nat (nat i))"

text \<open>
  A Python number that may be an \<^verbatim>\<open>int\<close> or a \<^verbatim>\<open>float\<close>. A float is given by the
  real number it denotes; how Python prints it (\<^verbatim>\<open>str(0.001)\<close>, \<^verbatim>\<open>str(30.0)\<close>) belongs to
  the runtime and is an argument of the model. A number is false when it is zero.
\<close>

datatype number = IntNum int | FloatNum real

fun number_truthy :: "number \<Rightarrow> bool" where
  "number_truthy (IntNum i) = (i \<noteq> 0)"
| "number_truthy (FloatNum f) = (f \<noteq> 0)"

fun str_number :: "(real \<Rightarrow> string) \<Rightarrow> number \<Rightarrow> string" where
  "str_number float_repr (IntNum i) = str_int i"
| "str_number float_repr (FloatNum f) = float_repr f"

section \<open>config.py\<close>

record PluginSpec =
  name :: string
  source :: string
  enabled :: bool
  package :: "string option"
  version :: "string option"
  url :: "string option"
  ref :: "string option"
  subdirectory :: "string option"
  path :: "string option"
  editable :: bool

definition plugin_id :: "PluginSpec \<Rightarrow> string" where
  "plugin_id spec =
     (if source spec = ''pypi'' \<and> truthy (package spec) then fmt (package spec) else name spec)"

definition get_install_spec :: "PluginSpec \<Rightarrow> exn + string" where
  "get_install_spec spec =
     (if source spec = ''pypi'' then
        (if truthy (version spec) then Inr (fmt (package spec) @ fmt (version spec))
         else Inr (py_or (package spec) (name spec)))
      else if source spec = ''git'' then
        Inr ((''git+'' @ fmt (url spec))
             @ (if truthy (ref spec) then ''@'' @ fmt (ref spec) else [])
             @ (if truthy (subdirectory spec)
                then ''#subdirectory='' @ fmt (subdirectory spec) else []))
      else if source spec = ''local'' then
        Inr (if truthy (path spec) then fmt (path spec) else [])
      else Inl (ConfigError (''Unknown source type: '' @ source spec)))"

definition validate :: "PluginSpec \<Rightarrow> exn + unit" where
  "validate spec =
     (if name spec = [] then
        Inl (ConfigError (''Plugin '' @ sq @ ''name'' @ sq @ '' is required''))
      else if source spec = [] then
        Inl (ConfigError (''Plugin '' @ sq @ name spec @ sq @ '' missing '' @ sq @ ''source''
                          @ sq @ '' field''))
      else if source spec = ''pypi'' then
        (if \<not> truthy (package spec)
         then Inl (ConfigError (''PyPI plugin '' @ sq @ name spec @ sq @ '' missing '' @ sq
                                @ ''package'' @ sq @ '' field''))
         else Inr ())
      else if source spec = ''git'' then
        (if \<not> truthy (url spec)
         then Inl (ConfigError (''Git plugin '' @ sq @ name spec @ sq @ '' missing '' @ sq
                                @ ''url'' @ sq @ '' field''))
         else Inr ())
      else if source spec = ''local'' then
        (if \<not> truthy (path spec)
         then Inl (ConfigError (''Local plugin '' @ sq @ name spec @ sq @ '' missing '' @ sq
                                @ ''path'' @ sq @ '' field''))
         else Inr ())
      else if source spec \<notin> {''pypi'', ''git'', ''local''} then
        Inl (ConfigError (''Plugin '' @ sq @ name spec @ sq @ '' has unknown source: ''
                          @ source spec))
      else Inr ())"

definition get_enabled_plugins :: "PluginSpec list \<Rightarrow> PluginSpec list" where
  "get_enabled_plugins ps = filter enabled ps"

text \<open>
  \<^verbatim>\<open>get_config_path\<close> reads the process environment and the file system. Both are
  arguments of the model: the environment as a map, and for every path what
  \<^verbatim>\<open>os.stat\<close> does on it. \<^verbatim>\<open>Path.exists()\<close> returns true when \<^verbatim>\<open>stat\<close> succeeds, false
  when it fails with an error that says the file is not there, and lets every other
  \<^verbatim>\<open>OSError\<close> through (a name that is too long, a directory that may not be searched).
  \<^verbatim>\<open>Path.home()\<close> gives the home directory or raises when there is none. A
  \<^verbatim>\<open>pathlib.Path\<close> is the string it was built from; \<^verbatim>\<open>/\<close> joins with a separator.
\<close>

datatype Path = Path string

fun joinpath :: "Path \<Rightarrow> string \<Rightarrow> Path" where
  "joinpath (Path a) b = Path (a @ ''/'' @ b)"

datatype stat_result = Found | NotFound | StatRaises exn

record os_state =
  environ :: "string \<rightharpoonup> string"
  stat :: "Path \<Rightarrow> stat_result"
  home :: "exn + Path"

definition path_exists :: "os_state \<Rightarrow> Path \<Rightarrow> exn + bool" where
  "path_exists os p =
     (case stat os p of Found \<Rightarrow> Inr True | NotFound \<Rightarrow> Inr False | StatRaises e \<Rightarrow> Inl e)"

definition default_config_path :: "Path \<Rightarrow> Path" where
  "default_config_path h = joinpath (joinpath (joinpath h ''.config'') ''vllm'') ''plugins.yaml''"

definition get_config_path :: "os_state \<Rightarrow> exn + Path option" where
  "get_config_path os =
     (if truthy (environ os ''VLLM_PLUGIN_CONFIG'') then
        (case path_exists os (Path (fmt (environ os ''VLLM_PLUGIN_CONFIG''))) of
           Inl e \<Rightarrow> Inl e
         | Inr found \<Rightarrow>
             if found then Inr (Some (Path (fmt (environ os ''VLLM_PLUGIN_CONFIG''))))
             else Inr None)
      else
        (case home os of
           Inl e \<Rightarrow> Inl e
         | Inr h \<Rightarrow>
             (case path_exists os (default_config_path h) of
                Inl e \<Rightarrow> Inl e
              | Inr found \<Rightarrow> if found then Inr (Some (default_config_path h)) else Inr None)))"

section \<open>The host process and the package manager\<close>

text \<open>
  The package manager, the host's package metadata index and its entry points are outside
  the repository. They are arguments of the model: a host state of any type \<open>'h\<close> and
  the operations the source calls on it. Running the package manager may change the host
  state (an install changes what is installed); the other operations read it.
\<close>

datatype proc_result =
    Completed int string string
  | TimeoutExpired
  | OutputUndecodable int string
  | RunFailed string

datatype dist_lookup =
    PackageNotFound
  | Distribution "string option"
  | LookupRaises exn

record EntryPoint =
  ep_name :: string
  ep_value :: string
  ep_dist :: "string option"

record 'h host_api =
  executable :: string
  subprocess_run :: "'h \<Rightarrow> string list \<Rightarrow> number \<Rightarrow> proc_result \<times> 'h"
  distribution :: "'h \<Rightarrow> string \<Rightarrow> dist_lookup"
  select_entry_points :: "'h \<Rightarrow> string \<Rightarrow> EntryPoint list"
  invalidate_caches :: "'h \<Rightarrow> 'h"
  path_str :: "string \<Rightarrow> string"
  float_str :: "real \<Rightarrow> string"

text \<open>
  \<open>Completed rc out err\<close> is a finished child process with its return code and captured
  output, as \<^verbatim>\<open>subprocess.run\<close> returns it. \<open>TimeoutExpired\<close> is the
  \<^verbatim>\<open>subprocess.TimeoutExpired\<close> exception. \<open>OutputUndecodable rc e\<close> is a child that
  exited with return code \<open>rc\<close> and whose captured output is not text in the expected
  encoding: with \<^verbatim>\<open>text=True\<close> the call raises \<^verbatim>\<open>UnicodeDecodeError\<close>, with message
  \<open>e\<close>. \<open>RunFailed e\<close> is any other exception of the call (the child could not be
  started). \<open>path_str p\<close> is \<^verbatim>\<open>str(Path(p))\<close>, \<open>float_str f\<close> is \<^verbatim>\<open>str(f)\<close> for a float.
  The world is the host state together with the log of every command line handed to
  \<^verbatim>\<open>subprocess.run\<close>, oldest first.
\<close>

record 'h world =
  host :: 'h
  pip_calls :: "string list list"

section \<open>sources/installer.py\<close>

record PackageInstaller =
  timeout :: number

definition DEFAULT_TIMEOUT :: int where
  "DEFAULT_TIMEOUT = 300"

text \<open>
  \<^verbatim>\<open>timeout or self.DEFAULT_TIMEOUT\<close>: no timeout and a zero timeout give the default,
  which is the integer 300; any other timeout, integer or float, is kept as it is.
\<close>

definition PackageInstaller_init :: "number option \<Rightarrow> PackageInstaller" where
  "PackageInstaller_init t =
     \<lparr>timeout = (case t of None \<Rightarrow> IntNum DEFAULT_TIMEOUT
                       | Some v \<Rightarrow> if number_truthy v then v else IntNum DEFAULT_TIMEOUT)\<rparr>"

definition timeout_message :: "'h host_api \<Rightarrow> PackageInstaller \<Rightarrow> string" where
  "timeout_message api inst =
     ''Command timed out after '' @ str_number (float_str api) (timeout inst) @ '' seconds''"

text \<open>The classification of one finished call, as \<^verbatim>\<open>_run_pip\<close> returns it.\<close>

fun classify :: "'h host_api \<Rightarrow> PackageInstaller \<Rightarrow> proc_result \<Rightarrow> bool \<times> string" where
  "classify api inst (Completed rc out err) = (rc = 0, out @ err)"
| "classify api inst TimeoutExpired = (False, timeout_message api inst)"
| "classify api inst (OutputUndecodable rc e) = (False, ''Error running pip: '' @ e)"
| "classify api inst (RunFailed e) = (False, ''Error running pip: '' @ e)"

definition run_pip ::
  "'h host_api \<Rightarrow> PackageInstaller \<Rightarrow> string list \<Rightarrow> 'h world \<Rightarrow> (bool \<times> string) \<times> 'h world" where
  "run_pip api inst args w =
     (let cmd = [executable api, ''-m'', ''pip''] @ args;
          r = subprocess_run api (host w) cmd (timeout inst)
      in (classify api inst (fst r), \<lparr>host = snd r, pip_calls = pip_calls w @ [cmd]\<rparr>))"

definition install_pypi ::
  "'h host_api \<Rightarrow> PackageInstaller \<Rightarrow> string \<Rightarrow> string option \<Rightarrow> bool \<Rightarrow> 'h world
     \<Rightarrow> (bool \<times> string) \<times> 'h world" where
  "install_pypi api inst pkg ver upgrade w =
     (let package_spec = (if truthy ver then pkg @ fmt ver else pkg)
      in run_pip api inst
           ([''install''] @ (if upgrade then [''--upgrade''] else []) @ [package_spec]) w)"

definition install_git ::
  "'h host_api \<Rightarrow> PackageInstaller \<Rightarrow> string \<Rightarrow> string option \<Rightarrow> string option \<Rightarrow> bool
     \<Rightarrow> 'h world \<Rightarrow> (bool \<times> string) \<times> 'h world" where
  "install_git api inst u r sub ed w =
     (let git_url = (''git+'' @ u)
            @ (if truthy r then ''@'' @ fmt r else [])
            @ (if truthy sub then ''#subdirectory='' @ fmt sub else [])
      in run_pip api inst ([''install''] @ (if ed then [''-e''] else []) @ [git_url]) w)"

definition install_local ::
  "'h host_api \<Rightarrow> PackageInstaller \<Rightarrow> string \<Rightarrow> bool \<Rightarrow> 'h world
     \<Rightarrow> (bool \<times> string) \<times> 'h world" where
  "install_local api inst p ed w =
     run_pip api inst ([''install''] @ (if ed then [''-e''] else []) @ [path_str api p]) w"

text \<open>
  \<^verbatim>\<open>install_from_spec\<close> either raises (\<open>Inl\<close>, the world untouched) or returns the
  installer's pair. The git branch calls \<^verbatim>\<open>install_git\<close> without its \<^verbatim>\<open>editable\<close>
  argument, whose default is false.
\<close>

definition install_from_spec ::
  "'h host_api \<Rightarrow> PackageInstaller \<Rightarrow> PluginSpec \<Rightarrow> 'h world
     \<Rightarrow> (exn + bool \<times> string) \<times> 'h world" where
  "install_from_spec api inst spec w =
     (if source spec = ''pypi'' then
        (let r = install_pypi api inst (py_or (package spec) (name spec)) (version spec) False w
         in (Inr (fst r), snd r))
      else if source spec = ''git'' then
        (if \<not> truthy (url spec)
         then (Inl (InstallerError (''Git plugin '' @ sq @ name spec @ sq @ '' missing URL'')), w)
         else (let r = install_git api inst (fmt (url spec)) (ref spec) (subdirectory spec) False w
               in (Inr (fst r), snd r)))
      else if source spec = ''local'' then
        (if \<not> truthy (path spec)
         then (Inl (InstallerError (''Local plugin '' @ sq @ name spec @ sq @ '' missing path'')), w)
         else (let r = install_local api inst (fmt (path spec)) (editable spec) w
               in (Inr (fst r), snd r)))
      else (Inl (InstallerError (''Unknown source type: '' @ source spec)), w))"

definition get_installed_version :: "'h host_api \<Rightarrow> 'h world \<Rightarrow> string \<Rightarrow> exn + string option" where
  "get_installed_version api w pkg =
     (case distribution api (host w) pkg of
        PackageNotFound \<Rightarrow> Inr None
      | Distribution v \<Rightarrow> Inr v
      | LookupRaises e \<Rightarrow> Inl e)"

section \<open>core/registry.py\<close>

datatype PluginStatus = PENDING | INSTALLING | INSTALLED | FAILED

text \<open>
  One entry of the registry: the dictionary \<^verbatim>\<open>register_plugin\<close> builds. The key
  \<^verbatim>\<open>error\<close> is optional in the source; here the field is \<open>None\<close> when the key is absent.
\<close>

record plugin_data =
  rec_name :: string
  rec_source :: string
  rec_package :: "string option"
  rec_version :: "string option"
  status :: PluginStatus
  entry_points :: "string list"
  error :: "string option"

record registry_data =
  reg_version :: string
  plugins :: "string \<rightharpoonup> plugin_data"

text \<open>
  What \<^verbatim>\<open>json.load\<close> does on the registry file: it raises \<^verbatim>\<open>JSONDecodeError\<close>, it raises
  something else (the file cannot be opened or read), or it returns a value, which is
  not a dictionary, a dictionary without the key \<^verbatim>\<open>plugins\<close>, or a registry document.
\<close>

datatype json_top = JsonNotDict | JsonDictNoPlugins | JsonRegistry registry_data

datatype json_load = JSONDecodeError string | ReadRaises exn | Returns json_top

datatype registry_file = NoFile | File json_load

record PluginRegistry =
  reg_data :: registry_data
  reg_file :: registry_file

definition REGISTRY_VERSION :: string where
  "REGISTRY_VERSION = ''1.0''"

definition empty_registry_data :: registry_data where
  "empty_registry_data = \<lparr>reg_version = REGISTRY_VERSION, plugins = Map.empty\<rparr>"

text \<open>\<^verbatim>\<open>_save\<close> rewrites the whole file with the data in memory.\<close>

definition save :: "registry_data \<Rightarrow> registry_file" where
  "save d = File (Returns (JsonRegistry d))"

definition create_empty_registry :: PluginRegistry where
  "create_empty_registry = \<lparr>reg_data = empty_registry_data, reg_file = save empty_registry_data\<rparr>"

text \<open>\<^verbatim>\<open>__init__\<close> with \<^verbatim>\<open>_load\<close>: only \<^verbatim>\<open>JSONDecodeError\<close> is caught.\<close>

fun load :: "registry_file \<Rightarrow> exn + PluginRegistry" where
  "load NoFile = Inr create_empty_registry"
| "load (File (Returns JsonNotDict)) = Inr create_empty_registry"
| "load (File (Returns JsonDictNoPlugins)) = Inr create_empty_registry"
| "load (File (Returns (JsonRegistry d))) = Inr \<lparr>reg_data = d, reg_file = File (Returns (JsonRegistry d))\<rparr>"
| "load (File (JSONDecodeError m)) = Inr create_empty_registry"
| "load (File (ReadRaises e)) = Inl e"

definition PluginRegistry_init :: "registry_file \<Rightarrow> exn + PluginRegistry" where
  "PluginRegistry_init f = load f"

definition set_plugins :: "PluginRegistry \<Rightarrow> (string \<rightharpoonup> plugin_data) \<Rightarrow> PluginRegistry" where
  "set_plugins r ps =
     \<lparr>reg_data = (reg_data r)\<lparr>plugins := ps\<rparr>, reg_file = save ((reg_data r)\<lparr>plugins := ps\<rparr>)\<rparr>"

definition register_plugin ::
  "PluginRegistry \<Rightarrow> string \<Rightarrow> string \<Rightarrow> string \<Rightarrow> string option \<Rightarrow> string option \<Rightarrow> PluginStatus
     \<Rightarrow> string list option \<Rightarrow> string option \<Rightarrow> PluginRegistry" where
  "register_plugin r pid nm src pkg ver st eps err =
     set_plugins r ((plugins (reg_data r))(pid \<mapsto>
       \<lparr>rec_name = nm, rec_source = src, rec_package = pkg, rec_version = ver, status = st,
        entry_points = (case eps of None \<Rightarrow> [] | Some l \<Rightarrow> l),
        error = (if truthy err then err else None)\<rparr>))"

definition get_plugin :: "PluginRegistry \<Rightarrow> string \<Rightarrow> plugin_data option" where
  "get_plugin r pid = plugins (reg_data r) pid"

definition get_all_plugins :: "PluginRegistry \<Rightarrow> (string \<rightharpoonup> plugin_data)" where
  "get_all_plugins r = plugins (reg_data r)"

definition update_status ::
  "PluginRegistry \<Rightarrow> string \<Rightarrow> PluginStatus \<Rightarrow> string option \<Rightarrow> PluginRegistry" where
  "update_status r pid st err =
     (case plugins (reg_data r) pid of
        None \<Rightarrow> r
      | Some p \<Rightarrow>
          set_plugins r ((plugins (reg_data r))(pid \<mapsto>
            p\<lparr>status := st,
              error := (if truthy err then err
                        else if error p \<noteq> None \<and> st = INSTALLED then None
                        else error p)\<rparr>)))"

definition update_entry_points :: "PluginRegistry \<Rightarrow> string \<Rightarrow> string list \<Rightarrow> PluginRegistry" where
  "update_entry_points r pid eps =
     (case plugins (reg_data r) pid of
        None \<Rightarrow> r
      | Some p \<Rightarrow> set_plugins r ((plugins (reg_data r))(pid \<mapsto> p\<lparr>entry_points := eps\<rparr>)))"

definition remove_plugin :: "PluginRegistry \<Rightarrow> string \<Rightarrow> PluginRegistry" where
  "remove_plugin r pid =
     (case plugins (reg_data r) pid of
        None \<Rightarrow> r
      | Some p \<Rightarrow> set_plugins r ((plugins (reg_data r))(pid := None)))"

definition is_installed :: "PluginRegistry \<Rightarrow> string \<Rightarrow> bool" where
  "is_installed r pid =
     (case get_plugin r pid of None \<Rightarrow> False | Some p \<Rightarrow> status p = INSTALLED)"

definition get_plugins_by_status :: "PluginRegistry \<Rightarrow> PluginStatus \<Rightarrow> (string \<rightharpoonup> plugin_data)" where
  "get_plugins_by_status r st =
     (\<lambda>pid. case plugins (reg_data r) pid of
               None \<Rightarrow> None
             | Some p \<Rightarrow> if status p = st then Some p else None)"





section \<open>core/discovery.py\<close>

definition VLLM_ENTRY_POINT_GROUPS :: "string list" where
  "VLLM_ENTRY_POINT_GROUPS =
     [''vllm.general_plugins'', ''vllm.logits_processors'', ''vllm.stat_logger_plugins'',
      ''vllm.platform_plugins'']"

type_synonym snapshot = "(string \<times> (string \<times> string) list) list"

definition get_vllm_entry_points :: "'h host_api \<Rightarrow> 'h \<Rightarrow> (string \<times> EntryPoint list) list" where
  "get_vllm_entry_points api h =
     map (\<lambda>g. (g, select_entry_points api h g)) VLLM_ENTRY_POINT_GROUPS"

definition take_snapshot :: "'h host_api \<Rightarrow> 'h \<Rightarrow> snapshot" where
  "take_snapshot api h =
     map (\<lambda>ge. (fst ge, map (\<lambda>ep. (ep_name ep, ep_value ep)) (snd ge)))
       (get_vllm_entry_points api h)"

text \<open>\<^verbatim>\<open>d.get(group, [])\<close> on a dictionary from groups to lists.\<close>

definition get_or_empty :: "(string \<times> 'a list) list \<Rightarrow> string \<Rightarrow> 'a list" where
  "get_or_empty d g = (case map_of d g of None \<Rightarrow> [] | Some l \<Rightarrow> l)"

definition get_new_entry_points ::
  "'h host_api \<Rightarrow> snapshot option \<Rightarrow> 'h \<Rightarrow> (string \<times> EntryPoint list) list" where
  "get_new_entry_points api snap h =
     (case snap of
        None \<Rightarrow> map (\<lambda>g. (g, [])) VLLM_ENTRY_POINT_GROUPS
      | Some s \<Rightarrow>
          map (\<lambda>g. (g, filter (\<lambda>ep. (ep_name ep, ep_value ep) \<notin> set (get_or_empty s g))
                          (get_or_empty (get_vllm_entry_points api h) g)))
            VLLM_ENTRY_POINT_GROUPS)"

section \<open>manager.py\<close>

record 'h PluginManager =
  config :: "PluginSpec list"
  registry :: PluginRegistry
  discovery_snapshot :: "snapshot option"
  installer :: PackageInstaller
  world :: "'h world"

text \<open>The variables of the loop of \<^verbatim>\<open>install_plugins\<close>.\<close>

record 'h pass_state =
  st_registry :: PluginRegistry
  st_world :: "'h world"
  results :: "string \<rightharpoonup> bool \<times> string"
  installed_any :: bool

text \<open>The \<^verbatim>\<open>except Exception\<close> handler and the failure branch do the same thing.\<close>

definition record_failure :: "string \<Rightarrow> string \<Rightarrow> PluginRegistry \<Rightarrow> 'h world \<Rightarrow> 'h pass_state \<Rightarrow> 'h pass_state" where
  "record_failure pid msg r w st =
     st\<lparr>st_registry := update_status r pid FAILED (Some msg),
        st_world := w,
        results := (results st)(pid \<mapsto> (False, msg))\<rparr>"

text \<open>One iteration of the loop, for one enabled spec.\<close>

definition install_one :: "'h host_api \<Rightarrow> PackageInstaller \<Rightarrow> PluginSpec \<Rightarrow> 'h pass_state \<Rightarrow> 'h pass_state" where
  "install_one api inst spec st =
     (let pid = plugin_id spec in
      if is_installed (st_registry st) pid then
        st\<lparr>results := (results st)(pid \<mapsto> (True, ''Already installed''))\<rparr>
      else
        (let r1 = register_plugin (st_registry st) pid (name spec) (source spec) (package spec)
                    None PENDING None None;
             r2 = update_status r1 pid INSTALLING None;
             res = install_from_spec api inst spec (st_world st)
         in case fst res of
              Inl e \<Rightarrow> record_failure pid (str_exn e) r2 (snd res) st
            | Inr sm \<Rightarrow>
                if fst sm then
                  (case get_installed_version api (snd res) (py_or (package spec) (name spec)) of
                     Inl e \<Rightarrow> record_failure pid (str_exn e) r2 (snd res) st
                   | Inr ver \<Rightarrow>
                       st\<lparr>st_registry := register_plugin r2 pid (name spec) (source spec)
                                            (package spec) ver INSTALLED None None,
                          st_world := snd res,
                          results := (results st)(pid \<mapsto>
                                        (True, ''Installed '' @ py_or ver ''successfully'')),
                          installed_any := True\<rparr>)
                else record_failure pid (snd sm) r2 (snd res) st))"

definition install_loop :: "'h host_api \<Rightarrow> PackageInstaller \<Rightarrow> PluginSpec list \<Rightarrow> 'h pass_state \<Rightarrow> 'h pass_state" where
  "install_loop api inst specs st = fold (install_one api inst) specs st"

text \<open>\<^verbatim>\<open>_update_entry_points\<close>: one new entry point, then all of them, group by group.\<close>

definition attribute_entry_point :: "string \<Rightarrow> EntryPoint \<Rightarrow> PluginRegistry \<Rightarrow> PluginRegistry" where
  "attribute_entry_point g ep r =
     (case ep_dist ep of
        None \<Rightarrow> r
      | Some pkg_name \<Rightarrow>
          (case get_plugin r pkg_name of
             None \<Rightarrow> r
           | Some plugin \<Rightarrow>
               if (g @ '':'' @ ep_name ep) \<in> set (entry_points plugin) then r
               else update_entry_points r pkg_name
                      (entry_points plugin @ [g @ '':'' @ ep_name ep])))"

definition update_registry_entry_points ::
  "'h host_api \<Rightarrow> snapshot option \<Rightarrow> 'h \<Rightarrow> PluginRegistry \<Rightarrow> PluginRegistry" where
  "update_registry_entry_points api snap h r =
     fold (\<lambda>ge. fold (attribute_entry_point (fst ge)) (snd ge))
       (get_new_entry_points api snap h) r"

definition initial_pass_state :: "'h PluginManager \<Rightarrow> 'h pass_state" where
  "initial_pass_state m =
     \<lparr>st_registry = registry m, st_world = world m, results = Map.empty, installed_any = False\<rparr>"

definition install_plugins ::
  "'h host_api \<Rightarrow> 'h PluginManager \<Rightarrow> (string \<rightharpoonup> bool \<times> string) \<times> 'h PluginManager" where
  "install_plugins api m =
     (let enabled_plugins = get_enabled_plugins (config m) in
      if enabled_plugins = [] then (Map.empty, m)
      else
        (let snap = take_snapshot api (host (world m));
             st = install_loop api (installer m) enabled_plugins (initial_pass_state m)
         in if installed_any st then
              (let w = (st_world st)\<lparr>host := invalidate_caches api (host (st_world st))\<rparr>
               in (results st,
                   m\<lparr>registry := update_registry_entry_points api (Some snap) (host w)
                                   (st_registry st),
                     discovery_snapshot := Some snap,
                     world := w\<rparr>))
            else
              (results st,
               m\<lparr>registry := st_registry st, discovery_snapshot := Some snap,
                 world := st_world st\<rparr>)))"

section \<open>A small host for concrete runs\<close>

text \<open>
  A host whose state is the list of targets installed so far. Its package manager fails
  on four targets (with a message, with no output at all, by timeout, with the wording
  of a timeout as its output), prints bytes that are not text on a fifth although it
  exits with code 0, cannot be started for a sixth, and installs every other one. Of
  the floats it prints 0.001 and 30.0 as Python does.
\<close>

definition demo_run :: "string list \<Rightarrow> string list \<Rightarrow> number \<Rightarrow> proc_result \<times> string list" where
  "demo_run h cmd t =
     (if last cmd = ''bad-plugin'' then (Completed 1 ''network error'' [], h)
      else if last cmd = ''mute-plugin'' then (Completed 1 [] [], h)
      else if last cmd = ''slow-plugin'' then (TimeoutExpired, h)
      else if last cmd = ''echo-plugin'' then
        (Completed 1 ''Command timed out after 300 seconds'' [], h)
      else if last cmd = ''garbled-plugin'' then
        (OutputUndecodable 0 ''invalid start byte'', h @ [last cmd])
      else if last cmd = ''unstartable-plugin'' then (RunFailed ''No such file or directory'', h)
      else (Completed 0 ''Successfully installed'' [], h @ [last cmd]))"

definition demo_api :: "string list host_api" where
  "demo_api =
     \<lparr>executable = ''python'',
      subprocess_run = demo_run,
      distribution = (\<lambda>h pkg. if pkg \<in> set h then Distribution (Some ''1.0.0'')
                              else PackageNotFound),
      select_entry_points = (\<lambda>h g. if g = ''vllm.general_plugins''
                                     then map (\<lambda>p. \<lparr>ep_name = ''register'', ep_value = p,
                                                     ep_dist = Some p\<rparr>) h
                                     else []),
      invalidate_caches = (\<lambda>h. h),
      path_str = (\<lambda>p. p),
      float_str = (\<lambda>f. if f = 1 / 1000 then ''0.001'' else if f = 30 then ''30.0''
                        else ''inf'')\<rparr>"

definition pypi_spec :: "string \<Rightarrow> string option \<Rightarrow> PluginSpec" where
  "pypi_spec p v =
     \<lparr>name = p, source = ''pypi'', enabled = True, package = Some p, version = v, url = None,
      ref = None, subdirectory = None, path = None, editable = True\<rparr>"

definition git_spec :: "string \<Rightarrow> string \<Rightarrow> string option \<Rightarrow> string option \<Rightarrow> bool \<Rightarrow> PluginSpec" where
  "git_spec n u r sub ed =
     \<lparr>name = n, source = ''git'', enabled = True, package = None, version = None, url = Some u,
      ref = r, subdirectory = sub, path = None, editable = ed\<rparr>"

definition local_spec :: "string \<Rightarrow> string \<Rightarrow> bool \<Rightarrow> PluginSpec" where
  "local_spec n p ed =
     \<lparr>name = n, source = ''local'', enabled = True, package = None, version = None, url = None,
      ref = None, subdirectory = None, path = Some p, editable = ed\<rparr>"

definition demo_manager :: "PluginSpec list \<Rightarrow> string list PluginManager" where
  "demo_manager specs =
     \<lparr>config = specs, registry = create_empty_registry, discovery_snapshot = None,
      installer = PackageInstaller_init None, world = \<lparr>host = [], pip_calls = []\<rparr>\<rparr>"

text \<open>
  Three operating systems with the default file under the home directory in place:
  one where the override names a file that is not there, one where the override is set
  to the empty string, and one where the override is a path with a name so long that
  \<^verbatim>\<open>stat\<close> fails with \<^verbatim>\<open>ENAMETOOLONG\<close> (such a file cannot exist).
\<close>

definition long_name :: string where
  "long_name = replicate 300 CHR ''b''"

definition demo_stat :: "Path \<Rightarrow> stat_result" where
  "demo_stat q =
     (if q = Path ''/home/u/.config/vllm/plugins.yaml'' then Found
      else if q = Path (''/tmp/'' @ long_name @ ''/plugins.yaml'')
      then StatRaises (OtherException ''[Errno 36] File name too long'')
      else NotFound)"

definition demo_os :: "string \<Rightarrow> os_state" where
  "demo_os override =
     \<lparr>environ = [''VLLM_PLUGIN_CONFIG'' \<mapsto> override],
      stat = demo_stat,
      home = Inr (Path ''/home/u'')\<rparr>"

text \<open>
  A registry file whose bytes are not valid UTF-8 (the two bytes FF FE, say). The file
  is opened in text mode, so reading it raises \<^verbatim>\<open>UnicodeDecodeError\<close> before the JSON
  parser has seen a character; that exception is not a \<^verbatim>\<open>JSONDecodeError\<close>.
\<close>

definition undecodable_file :: registry_file where
  "undecodable_file = File (ReadRaises (OtherException ''invalid start byte''))"

text \<open>
  Two desired states: one whose enabled plugins all install, one with a failing package,
  a git plugin without url and a good package after them.
\<close>

definition demo_config :: "PluginSpec list" where
  "demo_config =
     [pypi_spec ''foo'' (Some ''>=1.0.0''),
      (pypi_spec ''bar'' None)\<lparr>enabled := False\<rparr>,
      local_spec ''loc'' ''/opt/plugin'' True]"

definition failing_config :: "PluginSpec list" where
  "failing_config =
     [pypi_spec ''bad-plugin'' None,
      git_spec ''g'' [] None None True,
      pypi_spec ''foo'' None]"

section \<open>Source resolver\<close>

text \<open>
  C3. \<^verbatim>\<open>get_install_spec\<close> follows the string-construction rule for every origin kind.
  A pypi spec whose package is present yields the package followed by the version
  constraint verbatim when there is one, else the bare package. A git spec yields
  \<^verbatim>\<open>git+\<close> and the url, then \<^verbatim>\<open>@ref\<close> exactly when ref is present, then
  \<^verbatim>\<open>#subdirectory=...\<close> exactly when subdirectory is present, in that order. A local
  spec yields its path verbatim. Any other origin fails with a ConfigError that names
  the origin string. Present means truthy, as the source tests it: an empty ref or
  subdirectory contributes nothing.
\<close>

theorem get_install_spec_rule:
  "(source spec = ''pypi'' \<and> package spec = Some p \<and> p \<noteq> [] \<longrightarrow>
      get_install_spec spec = Inr (p @ (case version spec of None \<Rightarrow> [] | Some v \<Rightarrow> v)))
   \<and> (source spec = ''git'' \<and> url spec = Some u \<longrightarrow>
      get_install_spec spec =
        Inr (''git+'' @ u
             @ (case ref spec of None \<Rightarrow> [] | Some r \<Rightarrow> if r = [] then [] else ''@'' @ r)
             @ (case subdirectory spec of None \<Rightarrow> []
                | Some d \<Rightarrow> if d = [] then [] else ''#subdirectory='' @ d)))
   \<and> (source spec = ''local'' \<and> path spec = Some q \<longrightarrow> get_install_spec spec = Inr q)
   \<and> (source spec \<notin> {''pypi'', ''git'', ''local''} \<longrightarrow>
      get_install_spec spec = Inl (ConfigError (''Unknown source type: '' @ source spec)))"
  by (auto simp: get_install_spec_def truthy_def fmt_def py_or_def split: option.splits)

theorem get_install_spec_rule_witness:
  "get_install_spec (pypi_spec ''foo'' (Some ''>=1.0.0'')) = Inr ''foo>=1.0.0''
   \<and> get_install_spec (pypi_spec ''foo'' None) = Inr ''foo''
   \<and> get_install_spec (git_spec ''g'' ''https://x/y.git'' (Some ''main'') (Some ''pkg/sub'') True)
       = Inr ''git+https://x/y.git@main#subdirectory=pkg/sub''
   \<and> get_install_spec (git_spec ''g'' ''https://x/y.git'' None (Some ''pkg/sub'') True)
       = Inr ''git+https://x/y.git#subdirectory=pkg/sub''
   \<and> get_install_spec (local_spec ''l'' ''/opt/plugin'' True) = Inr ''/opt/plugin''
   \<and> get_install_spec ((pypi_spec ''foo'' None)\<lparr>source := ''svn''\<rparr>)
       = Inl (ConfigError ''Unknown source type: svn'')"
  using get_install_spec_rule [of "pypi_spec ''foo'' (Some ''>=1.0.0'')" "''foo''" "''''" "''''"]
        get_install_spec_rule [of "pypi_spec ''foo'' None" "''foo''" "''''" "''''"]
        get_install_spec_rule [of "git_spec ''g'' ''https://x/y.git'' (Some ''main'') (Some ''pkg/sub'') True" "''''" "''https://x/y.git''" "''''"]
        get_install_spec_rule [of "git_spec ''g'' ''https://x/y.git'' None (Some ''pkg/sub'') True" "''''" "''https://x/y.git''" "''''"]
        get_install_spec_rule [of "local_spec ''l'' ''/opt/plugin'' True" "''''" "''''" "''/opt/plugin''"]
        get_install_spec_rule [of "(pypi_spec ''foo'' None)\<lparr>source := ''svn''\<rparr>" "''''" "''''" "''''"]
  by (simp add: pypi_spec_def git_spec_def local_spec_def)

text \<open>
  C9. For a spec with a non-empty name and one of the three known origins, \<^verbatim>\<open>validate\<close>
  raises ConfigError exactly when the field its origin requires is missing (package for
  pypi, url for git, path for local), and returns normally exactly when that field is
  present. \<^verbatim>\<open>validate\<close> is a function of the spec alone: it reads and writes nothing else.
\<close>

theorem validate_required_field:
  assumes "source spec \<in> {''pypi'', ''git'', ''local''}" and "name spec \<noteq> []"
  shows "(validate spec = Inr () \<longleftrightarrow>
            truthy (if source spec = ''pypi'' then package spec
                    else if source spec = ''git'' then url spec else path spec))
         \<and> ((\<exists>m. validate spec = Inl (ConfigError m)) \<longleftrightarrow>
            \<not> truthy (if source spec = ''pypi'' then package spec
                      else if source spec = ''git'' then url spec else path spec))"
  using assms by (auto simp: validate_def)

theorem validate_required_field_witness:
  "validate (git_spec ''g'' ''https://x/y.git'' None None True) = Inr ()
   \<and> (\<exists>m. validate ((git_spec ''g'' ''https://x/y.git'' None None True)\<lparr>url := None\<rparr>)
            = Inl (ConfigError m))
   \<and> validate (pypi_spec ''foo'' None) = Inr ()
   \<and> (\<exists>m. validate (local_spec ''l'' [] True) = Inl (ConfigError m))"
  using validate_required_field [of "git_spec ''g'' ''https://x/y.git'' None None True"]
        validate_required_field [of "(git_spec ''g'' ''https://x/y.git'' None None True)\<lparr>url := None\<rparr>"]
        validate_required_field [of "pypi_spec ''foo'' None"]
        validate_required_field [of "local_spec ''l'' [] True"]
  by (simp add: pypi_spec_def git_spec_def local_spec_def truthy_def)

lemma get_config_path_nonempty_override:
  fixes x :: os_state
  assumes "environ x ''VLLM_PLUGIN_CONFIG'' = Some q" and "q \<noteq> []"
  shows "get_config_path x
      = (case stat x (Path q) of Found \<Rightarrow> Inr (Some (Path q)) | NotFound \<Rightarrow> Inr None
         | StatRaises e \<Rightarrow> Inl e)"
proof -
  from assms have t: "truthy (environ x ''VLLM_PLUGIN_CONFIG'')"
    and f: "fmt (environ x ''VLLM_PLUGIN_CONFIG'') = q"
    by (simp_all add: truthy_def fmt_def)
  show ?thesis
    unfolding get_config_path_def path_exists_def
    by (simp only: t f if_True) (cases "stat x (Path q)"; simp)
qed

lemma get_config_path_no_override:
  fixes x :: os_state
  assumes "environ x ''VLLM_PLUGIN_CONFIG'' = None \<or> environ x ''VLLM_PLUGIN_CONFIG'' = Some []"
    and "home x = Inr h" and "stat x (default_config_path h) = Found"
  shows "get_config_path x = Inr (Some (default_config_path h))"
proof -
  from assms(1) have t: "\<not> truthy (environ x ''VLLM_PLUGIN_CONFIG'')"
    by (auto simp: truthy_def)
  show ?thesis
    unfolding get_config_path_def path_exists_def
    by (simp only: t if_False assms(2)) (simp add: assms(3))
qed

text \<open>
  C10, as the code has it. When the override \<^verbatim>\<open>VLLM_PLUGIN_CONFIG\<close> is set to a
  non-empty path and the existence check says the path is not there, \<^verbatim>\<open>get_config_path\<close>
  returns none, whatever the default location holds; when the check says it is there,
  the result is that path. With a non-empty override the default location is not
  consulted: two systems that agree on the override and on what \<^verbatim>\<open>stat\<close> does on its
  path give the same result, whatever their home directories and other files are. The
  default location is consulted when the override is unset or is the empty string: the
  default file is then returned when it exists.
\<close>

theorem get_config_path_override:
  "(environ os ''VLLM_PLUGIN_CONFIG'' = Some p \<and> p \<noteq> [] \<and> stat os (Path p) = NotFound
      \<longrightarrow> get_config_path os = Inr None)
   \<and> (environ os ''VLLM_PLUGIN_CONFIG'' = Some p \<and> p \<noteq> [] \<and> stat os (Path p) = Found
      \<longrightarrow> get_config_path os = Inr (Some (Path p)))
   \<and> (environ os ''VLLM_PLUGIN_CONFIG'' = Some p \<and> p \<noteq> []
      \<longrightarrow> (\<forall>os' :: os_state. environ os' ''VLLM_PLUGIN_CONFIG'' = Some p
                  \<and> stat os' (Path p) = stat os (Path p)
                \<longrightarrow> get_config_path os' = get_config_path os))
   \<and> ((environ os ''VLLM_PLUGIN_CONFIG'' = None \<or> environ os ''VLLM_PLUGIN_CONFIG'' = Some [])
        \<and> home os = Inr h \<and> stat os (default_config_path h) = Found
      \<longrightarrow> get_config_path os = Inr (Some (default_config_path h)))"
proof (intro conjI impI allI)
  assume "environ os ''VLLM_PLUGIN_CONFIG'' = Some p \<and> p \<noteq> [] \<and> stat os (Path p) = NotFound"
  then show "get_config_path os = Inr None"
    by (simp add: get_config_path_nonempty_override)
next
  assume "environ os ''VLLM_PLUGIN_CONFIG'' = Some p \<and> p \<noteq> [] \<and> stat os (Path p) = Found"
  then show "get_config_path os = Inr (Some (Path p))"
    by (simp add: get_config_path_nonempty_override)
next
  fix os' :: os_state
  assume a: "environ os ''VLLM_PLUGIN_CONFIG'' = Some p \<and> p \<noteq> []"
    and b: "environ os' ''VLLM_PLUGIN_CONFIG'' = Some p \<and> stat os' (Path p) = stat os (Path p)"
  from a have "get_config_path os
      = (case stat os (Path p) of Found \<Rightarrow> Inr (Some (Path p)) | NotFound \<Rightarrow> Inr None
         | StatRaises e \<Rightarrow> Inl e)"
    by (intro get_config_path_nonempty_override) simp_all
  moreover from a b have "get_config_path os'
      = (case stat os' (Path p) of Found \<Rightarrow> Inr (Some (Path p)) | NotFound \<Rightarrow> Inr None
         | StatRaises e \<Rightarrow> Inl e)"
    by (intro get_config_path_nonempty_override) simp_all
  ultimately show "get_config_path os' = get_config_path os" using b by simp
next
  assume c: "(environ os ''VLLM_PLUGIN_CONFIG'' = None \<or> environ os ''VLLM_PLUGIN_CONFIG'' = Some [])
      \<and> home os = Inr h \<and> stat os (default_config_path h) = Found"
  then show "get_config_path os = Inr (Some (default_config_path h))"
    by (intro get_config_path_no_override) simp_all
qed

theorem get_config_path_override_witness:
  "stat (demo_os ''/mnt/plugins.yaml'') (default_config_path (Path ''/home/u'')) = Found
   \<and> get_config_path (demo_os ''/mnt/plugins.yaml'') = Inr None
   \<and> get_config_path (demo_os ''/home/u/.config/vllm/plugins.yaml'')
       = Inr (Some (Path ''/home/u/.config/vllm/plugins.yaml''))
   \<and> get_config_path ((demo_os ''/mnt/plugins.yaml'')\<lparr>environ := Map.empty\<rparr>)
       = Inr (Some (default_config_path (Path ''/home/u'')))"
proof -
  let ?missing = "demo_os ''/mnt/plugins.yaml''"
  let ?present = "demo_os ''/home/u/.config/vllm/plugins.yaml''"
  let ?unset = "(demo_os ''/mnt/plugins.yaml'')\<lparr>environ := Map.empty\<rparr>"
  let ?h = "Path ''/home/u''"
  have d: "stat ?missing (default_config_path ?h) = Found"
    by (simp add: demo_os_def demo_stat_def default_config_path_def)
  have m: "environ ?missing ''VLLM_PLUGIN_CONFIG'' = Some ''/mnt/plugins.yaml''
           \<and> ''/mnt/plugins.yaml'' \<noteq> []
           \<and> stat ?missing (Path ''/mnt/plugins.yaml'') = NotFound"
    by (simp add: demo_os_def demo_stat_def)
  have p: "environ ?present ''VLLM_PLUGIN_CONFIG'' = Some ''/home/u/.config/vllm/plugins.yaml''
           \<and> ''/home/u/.config/vllm/plugins.yaml'' \<noteq> []
           \<and> stat ?present (Path ''/home/u/.config/vllm/plugins.yaml'') = Found"
    by (simp add: demo_os_def demo_stat_def)
  have u: "(environ ?unset ''VLLM_PLUGIN_CONFIG'' = None
             \<or> environ ?unset ''VLLM_PLUGIN_CONFIG'' = Some [])
           \<and> home ?unset = Inr ?h \<and> stat ?unset (default_config_path ?h) = Found"
    by (simp add: demo_os_def demo_stat_def default_config_path_def)
  have r1: "get_config_path ?missing = Inr None"
    using get_config_path_override [of ?missing "''/mnt/plugins.yaml''" ?h,
        THEN conjunct1, rule_format, OF m] .
  have r2: "get_config_path ?present = Inr (Some (Path ''/home/u/.config/vllm/plugins.yaml''))"
    using get_config_path_override [of ?present "''/home/u/.config/vllm/plugins.yaml''" ?h,
        THEN conjunct2, THEN conjunct1, rule_format, OF p] .
  have r3: "get_config_path ?unset = Inr (Some (default_config_path ?h))"
    using get_config_path_override [of ?unset "[]" ?h,
        THEN conjunct2, THEN conjunct2, THEN conjunct2, rule_format, OF u] .
  from d r1 r2 r3 show ?thesis by (simp only: simp_thms)
qed

text \<open>
  C10 as stated says that the default location is consulted only when the override is
  unset, and that an override naming a file that does not exist gives none. An override
  set to the empty string is set, and the default file is returned. An override whose
  path has a component of 300 characters names no file, the existence check raises
  \<^verbatim>\<open>OSError\<close> for it, and \<^verbatim>\<open>get_config_path\<close> raises instead of returning none.
\<close>

theorem empty_override_uses_default:
  "environ (demo_os []) ''VLLM_PLUGIN_CONFIG'' = Some []
   \<and> get_config_path (demo_os []) = Inr (Some (Path ''/home/u/.config/vllm/plugins.yaml''))
   \<and> length long_name = 300
   \<and> get_config_path (demo_os (''/tmp/'' @ long_name @ ''/plugins.yaml''))
       = Inl (OtherException ''[Errno 36] File name too long'')"
  by (simp add: get_config_path_def path_exists_def truthy_def fmt_def demo_os_def demo_stat_def
        default_config_path_def) (simp add: long_name_def)

section \<open>Process installer\<close>

lemma run_pip_calls:
  "pip_calls (snd (run_pip api inst args w)) = pip_calls w @ [[executable api, ''-m'', ''pip''] @ args]"
  by (simp add: run_pip_def Let_def)

subsection \<open>The decimal rendering is injective\<close>

lemma str_int_300: "str_int 300 = ''300''"
  by (simp add: str_int_def str_nat.simps digit_char_def)

lemma digit_char_inj: "a < 10 \<Longrightarrow> b < 10 \<Longrightarrow> digit_char a = digit_char b \<Longrightarrow> a = b"
proof -
  assume a: "a < 10" and b: "b < 10" and e: "digit_char a = digit_char b"
  have "distinct ''0123456789''" by simp
  moreover from a b have "a < length ''0123456789''" "b < length ''0123456789''" by simp_all
  ultimately show "a = b" using e unfolding digit_char_def by (simp only: nth_eq_iff_index_eq)
qed

lemma digit_char_not_minus: "d < 10 \<Longrightarrow> digit_char d \<noteq> CHR ''-''"
proof -
  assume "d < 10"
  then have "d < length ''0123456789''" by simp
  then have "''0123456789'' ! d \<in> set ''0123456789''" by (rule nth_mem)
  moreover have "CHR ''-'' \<notin> set ''0123456789''" by simp
  ultimately show ?thesis unfolding digit_char_def by metis
qed

lemma str_nat_length: "10 \<le> n \<Longrightarrow> 2 \<le> length (str_nat n)"
proof -
  assume "10 \<le> n"
  then have "str_nat n = str_nat (n div 10) @ [digit_char (n mod 10)]"
    by (subst str_nat.simps) simp
  moreover have "1 \<le> length (str_nat (n div 10))"
    by (subst str_nat.simps) simp
  ultimately show ?thesis by simp
qed

lemma str_nat_inj: "str_nat n = str_nat m \<Longrightarrow> n = m"
proof (induction n arbitrary: m rule: str_nat.induct)
  case (1 n)
  show ?case
  proof (cases "n < 10")
    case True
    then have sn: "str_nat n = [digit_char n]" by (subst str_nat.simps) simp
    show ?thesis
    proof (cases "m < 10")
      case True
      then have "str_nat m = [digit_char m]" by (subst str_nat.simps) simp
      with sn "1.prems" have "digit_char n = digit_char m" by simp
      with \<open>n < 10\<close> \<open>m < 10\<close> show ?thesis by (rule digit_char_inj)
    next
      case False
      then have "2 \<le> length (str_nat m)" by (simp add: str_nat_length)
      with sn "1.prems" show ?thesis by simp
    qed
  next
    case False
    then have sn: "str_nat n = str_nat (n div 10) @ [digit_char (n mod 10)]"
      by (subst str_nat.simps) simp
    show ?thesis
    proof (cases "m < 10")
      case True
      then have "str_nat m = [digit_char m]" by (subst str_nat.simps) simp
      moreover from False have "2 \<le> length (str_nat n)" by (simp add: str_nat_length)
      ultimately show ?thesis using "1.prems" by simp
    next
      case m: False
      then have sm: "str_nat m = str_nat (m div 10) @ [digit_char (m mod 10)]"
        by (subst str_nat.simps) simp
      from sn sm "1.prems" have e1: "str_nat (n div 10) = str_nat (m div 10)"
        and e2: "digit_char (n mod 10) = digit_char (m mod 10)" by simp_all
      from "1.IH" [OF False e1] have d: "n div 10 = m div 10" .
      from e2 have "n mod 10 = m mod 10" by (intro digit_char_inj) simp_all
      with d show ?thesis by (metis div_mult_mod_eq)
    qed
  qed
qed

lemma str_nat_no_minus: "CHR ''-'' \<notin> set (str_nat n)"
proof (induction n rule: str_nat.induct)
  case (1 n)
  show ?case
  proof (cases "n < 10")
    case True
    then have "str_nat n = [digit_char n]" by (subst str_nat.simps) simp
    with True show ?thesis using digit_char_not_minus [of n] by auto
  next
    case False
    then have "str_nat n = str_nat (n div 10) @ [digit_char (n mod 10)]"
      by (subst str_nat.simps) simp
    with "1.IH" [OF False] show ?thesis using digit_char_not_minus [of "n mod 10"] by auto
  qed
qed

lemma str_int_inj: "str_int i = str_int j \<Longrightarrow> i = j"
proof -
  assume e: "str_int i = str_int j"
  have neg: "\<And>a b. a < 0 \<Longrightarrow> \<not> b < 0 \<Longrightarrow> str_int a \<noteq> str_int (b::int)"
  proof
    fix a b :: int assume "a < 0" "\<not> b < 0" "str_int a = str_int b"
    then have "str_nat (nat b) = CHR ''-'' # str_nat (nat (- a))" by (simp add: str_int_def)
    then have "CHR ''-'' \<in> set (str_nat (nat b))" by simp
    then show False by (simp add: str_nat_no_minus)
  qed
  show "i = j"
  proof (cases "i < 0")
    case True
    show ?thesis
    proof (cases "j < 0")
      case j: True
      with True e have "nat (- i) = nat (- j)" by (auto simp: str_int_def dest: str_nat_inj)
      with True j show ?thesis by simp
    next
      case False
      with True e neg show ?thesis by blast
    qed
  next
    case False
    show ?thesis
    proof (cases "j < 0")
      case True
      with False e neg [of j i] show ?thesis by auto
    next
      case j: False
      with False e have "nat i = nat j" by (auto simp: str_int_def dest: str_nat_inj)
      with False j show ?thesis by simp
    qed
  qed
qed

lemma timeout_message_int_inj:
  "timeout a = IntNum i \<Longrightarrow> timeout b = IntNum j \<Longrightarrow>
     timeout_message api a = timeout_message api b \<longleftrightarrow> i = j"
  by (auto simp: timeout_message_def dest: str_int_inj)

text \<open>
  C5, as the code has it. When \<^verbatim>\<open>subprocess.run\<close> returns, a return code of zero gives
  success and any other return code failure, both with stdout followed by stderr as the
  message. A timeout gives failure with the message \<^verbatim>\<open>Command timed out after T seconds\<close>,
  where T is the configured timeout as Python prints it: the decimal digits of an
  integer timeout (different integers give different messages), \<^verbatim>\<open>str(f)\<close> for a float
  one. Every other exception of the call gives failure with \<^verbatim>\<open>Error running pip:\<close> and
  the exception's text; that includes a child whose output cannot be decoded, whatever
  its return code, zero too. These four cases are all there are. The result is a pair
  of a flag and a message, with no separate mark for a timeout: the timeout result
  differs from the result of every other exception, and it equals the result of a
  failed package-manager run exactly when that run printed the timeout sentence itself.
\<close>

theorem run_pip_classification:
  "(fst (subprocess_run api (host w) ([executable api, ''-m'', ''pip''] @ args) (timeout inst))
       = Completed rc out err
      \<longrightarrow> fst (run_pip api inst args w) = (rc = 0, out @ err))
   \<and> (fst (subprocess_run api (host w) ([executable api, ''-m'', ''pip''] @ args) (timeout inst))
       = TimeoutExpired
      \<longrightarrow> fst (run_pip api inst args w)
          = (False, ''Command timed out after '' @ str_number (float_str api) (timeout inst)
                    @ '' seconds''))
   \<and> (fst (subprocess_run api (host w) ([executable api, ''-m'', ''pip''] @ args) (timeout inst))
       = OutputUndecodable rc e
      \<longrightarrow> fst (run_pip api inst args w) = (False, ''Error running pip: '' @ e))
   \<and> (fst (subprocess_run api (host w) ([executable api, ''-m'', ''pip''] @ args) (timeout inst))
       = RunFailed e
      \<longrightarrow> fst (run_pip api inst args w) = (False, ''Error running pip: '' @ e))
   \<and> str_number (float_str api) (IntNum i) = str_int i
   \<and> str_number (float_str api) (FloatNum f) = float_str api f
   \<and> (timeout inst = IntNum i \<and> timeout inst' = IntNum j
      \<longrightarrow> (timeout_message api inst = timeout_message api inst' \<longleftrightarrow> i = j))
   \<and> (classify api inst (Completed rc out err) = classify api inst TimeoutExpired
        \<longleftrightarrow> rc \<noteq> 0 \<and> out @ err = timeout_message api inst)
   \<and> classify api inst (OutputUndecodable rc e) \<noteq> classify api inst TimeoutExpired
   \<and> classify api inst (RunFailed e) \<noteq> classify api inst TimeoutExpired"
proof -
  have run: "fst (run_pip api inst args w)
      = classify api inst (fst (subprocess_run api (host w)
          ([executable api, ''-m'', ''pip''] @ args) (timeout inst)))"
    by (simp add: run_pip_def Let_def)
  have tm: "timeout_message api inst
      = ''Command timed out after '' @ str_number (float_str api) (timeout inst) @ '' seconds''"
    by (simp add: timeout_message_def)
  have other: "\<And>x. (False, ''Error running pip: '' @ x) \<noteq> (False, timeout_message api inst)"
    by (simp add: timeout_message_def)
  have inj: "timeout inst = IntNum i \<and> timeout inst' = IntNum j
      \<longrightarrow> (timeout_message api inst = timeout_message api inst' \<longleftrightarrow> i = j)"
    by (simp add: timeout_message_int_inj)
  have same: "classify api inst (Completed rc out err) = classify api inst TimeoutExpired
        \<longleftrightarrow> rc \<noteq> 0 \<and> out @ err = timeout_message api inst"
    by auto
  from run tm other inj same show ?thesis by simp
qed

theorem run_pip_classification_witness:
  "fst (run_pip demo_api (PackageInstaller_init None) [''install'', ''foo'']
          \<lparr>host = [], pip_calls = []\<rparr>) = (True, ''Successfully installed'')
   \<and> fst (run_pip demo_api (PackageInstaller_init None) [''install'', ''bad-plugin'']
          \<lparr>host = [], pip_calls = []\<rparr>) = (False, ''network error'')
   \<and> fst (run_pip demo_api (PackageInstaller_init None) [''install'', ''slow-plugin'']
          \<lparr>host = [], pip_calls = []\<rparr>) = (False, ''Command timed out after 300 seconds'')
   \<and> fst (run_pip demo_api (PackageInstaller_init (Some (FloatNum (1 / 1000))))
          [''install'', ''slow-plugin''] \<lparr>host = [], pip_calls = []\<rparr>)
       = (False, ''Command timed out after 0.001 seconds'')
   \<and> fst (run_pip demo_api (PackageInstaller_init None) [''install'', ''garbled-plugin'']
          \<lparr>host = [], pip_calls = []\<rparr>) = (False, ''Error running pip: invalid start byte'')
   \<and> fst (run_pip demo_api (PackageInstaller_init None) [''install'', ''unstartable-plugin'']
          \<lparr>host = [], pip_calls = []\<rparr>)
       = (False, ''Error running pip: No such file or directory'')
   \<and> timeout_message demo_api (PackageInstaller_init (Some (IntNum 300)))
       = timeout_message demo_api (PackageInstaller_init None)"
proof -
  let ?w = "\<lparr>host = [] :: string list, pip_calls = []\<rparr>"
  let ?d = "PackageInstaller_init None"
  let ?fl = "PackageInstaller_init (Some (FloatNum (1 / 1000)))"
  have td: "timeout ?d = IntNum 300"
    by (simp add: PackageInstaller_init_def DEFAULT_TIMEOUT_def)
  have tf: "timeout ?fl = FloatNum (1 / 1000)"
    by (simp add: PackageInstaller_init_def)
  have ti: "timeout (PackageInstaller_init (Some (IntNum 300))) = IntNum 300"
    by (simp add: PackageInstaller_init_def)
  have fs: "float_str demo_api (1 / 1000) = ''0.001''"
    by (simp add: demo_api_def)
  have c1: "fst (subprocess_run demo_api (host ?w)
               ([executable demo_api, ''-m'', ''pip''] @ [''install'', ''foo'']) (timeout ?d))
             = Completed 0 ''Successfully installed'' []"
    by (simp add: demo_api_def demo_run_def)
  have c2: "fst (subprocess_run demo_api (host ?w)
               ([executable demo_api, ''-m'', ''pip''] @ [''install'', ''bad-plugin'']) (timeout ?d))
             = Completed 1 ''network error'' []"
    by (simp add: demo_api_def demo_run_def)
  have c3: "fst (subprocess_run demo_api (host ?w)
               ([executable demo_api, ''-m'', ''pip''] @ [''install'', ''slow-plugin'']) (timeout ?d))
             = TimeoutExpired"
    by (simp add: demo_api_def demo_run_def)
  have c4: "fst (subprocess_run demo_api (host ?w)
               ([executable demo_api, ''-m'', ''pip''] @ [''install'', ''slow-plugin'']) (timeout ?fl))
             = TimeoutExpired"
    by (simp add: demo_api_def demo_run_def)
  have c5: "fst (subprocess_run demo_api (host ?w)
               ([executable demo_api, ''-m'', ''pip''] @ [''install'', ''garbled-plugin''])
               (timeout ?d))
             = OutputUndecodable 0 ''invalid start byte''"
    by (simp add: demo_api_def demo_run_def)
  have c6: "fst (subprocess_run demo_api (host ?w)
               ([executable demo_api, ''-m'', ''pip''] @ [''install'', ''unstartable-plugin''])
               (timeout ?d))
             = RunFailed ''No such file or directory''"
    by (simp add: demo_api_def demo_run_def)
  have r1: "fst (run_pip demo_api ?d [''install'', ''foo''] ?w) = (True, ''Successfully installed'')"
    using run_pip_classification [where api = demo_api and w = ?w and inst = ?d
        and args = "[''install'', ''foo'']", THEN conjunct1, rule_format, OF c1]
    by simp
  have r2: "fst (run_pip demo_api ?d [''install'', ''bad-plugin''] ?w) = (False, ''network error'')"
    using run_pip_classification [where api = demo_api and w = ?w and inst = ?d
        and args = "[''install'', ''bad-plugin'']", THEN conjunct1, rule_format, OF c2]
    by simp
  have r3: "fst (run_pip demo_api ?d [''install'', ''slow-plugin''] ?w)
              = (False, ''Command timed out after 300 seconds'')"
    using run_pip_classification [where api = demo_api and w = ?w and inst = ?d
        and args = "[''install'', ''slow-plugin'']", THEN conjunct2, THEN conjunct1, rule_format,
        OF c3]
    by (simp add: td str_int_300)
  have r4: "fst (run_pip demo_api ?fl [''install'', ''slow-plugin''] ?w)
              = (False, ''Command timed out after 0.001 seconds'')"
    using run_pip_classification [where api = demo_api and w = ?w and inst = ?fl
        and args = "[''install'', ''slow-plugin'']", THEN conjunct2, THEN conjunct1, rule_format,
        OF c4]
    by (simp add: tf fs)
  have r5: "fst (run_pip demo_api ?d [''install'', ''garbled-plugin''] ?w)
              = (False, ''Error running pip: invalid start byte'')"
    using run_pip_classification [where api = demo_api and w = ?w and inst = ?d
        and args = "[''install'', ''garbled-plugin'']", THEN conjunct2, THEN conjunct2,
        THEN conjunct1, rule_format, OF c5]
    by simp
  have r6: "fst (run_pip demo_api ?d [''install'', ''unstartable-plugin''] ?w)
              = (False, ''Error running pip: No such file or directory'')"
    using run_pip_classification [where api = demo_api and w = ?w and inst = ?d
        and args = "[''install'', ''unstartable-plugin'']", THEN conjunct2, THEN conjunct2,
        THEN conjunct2, THEN conjunct1, rule_format, OF c6]
    by simp
  have r7: "timeout_message demo_api (PackageInstaller_init (Some (IntNum 300)))
              = timeout_message demo_api ?d"
    using run_pip_classification [where api = demo_api
        and inst = "PackageInstaller_init (Some (IntNum 300))" and inst' = ?d
        and i = 300 and j = 300, THEN conjunct2, THEN conjunct2, THEN conjunct2, THEN conjunct2,
        THEN conjunct2, THEN conjunct2, THEN conjunct1, rule_format, OF conjI [OF ti td]]
    by simp
  from r1 r2 r3 r4 r5 r6 r7 show ?thesis by (simp only: simp_thms)
qed

text \<open>
  C5 as stated asks that exit code 0 always yields a success and that a timeout can
  always be told apart from a failure the package manager reports. A child that exits
  with code 0 after printing bytes that are not text yields a failure. A package manager
  that exits with code 1 after printing the timeout sentence gives the same result as a
  timeout.
\<close>

theorem timeout_not_distinguishable:
  "fst (subprocess_run demo_api [] [''python'', ''-m'', ''pip'', ''install'', ''garbled-plugin'']
          (IntNum 300))
     = OutputUndecodable 0 ''invalid start byte''
   \<and> fst (run_pip demo_api (PackageInstaller_init None) [''install'', ''garbled-plugin'']
          \<lparr>host = [], pip_calls = []\<rparr>)
     = (False, ''Error running pip: invalid start byte'')
   \<and> fst (subprocess_run demo_api [] [''python'', ''-m'', ''pip'', ''install'', ''echo-plugin'']
          (IntNum 300))
     = Completed 1 ''Command timed out after 300 seconds'' []
   \<and> fst (subprocess_run demo_api [] [''python'', ''-m'', ''pip'', ''install'', ''slow-plugin'']
          (IntNum 300))
     = TimeoutExpired
   \<and> fst (run_pip demo_api (PackageInstaller_init None) [''install'', ''echo-plugin'']
          \<lparr>host = [], pip_calls = []\<rparr>)
     = fst (run_pip demo_api (PackageInstaller_init None) [''install'', ''slow-plugin'']
          \<lparr>host = [], pip_calls = []\<rparr>)"
  by (simp add: demo_api_def demo_run_def PackageInstaller_init_def DEFAULT_TIMEOUT_def
        str_int_300 run_pip_def Let_def timeout_message_def)

text \<open>
  C6. \<^verbatim>\<open>install_from_spec\<close> raises exactly when the origin is not one of the three known
  kinds, or it is git and url is absent, or it is local and path is absent. What it
  raises is an InstallerError, and the world is then unchanged: the package manager was
  not invoked. In every other case it invokes the package manager once and returns
  the installer's pair.
\<close>

theorem install_from_spec_raises:
  "(isl (fst (install_from_spec api inst spec w)) \<longleftrightarrow>
      (source spec \<notin> {''pypi'', ''git'', ''local''}
       \<or> (source spec = ''git'' \<and> \<not> truthy (url spec))
       \<or> (source spec = ''local'' \<and> \<not> truthy (path spec))))
   \<and> (isl (fst (install_from_spec api inst spec w)) \<longrightarrow>
        (\<exists>m. fst (install_from_spec api inst spec w) = Inl (InstallerError m))
        \<and> snd (install_from_spec api inst spec w) = w)
   \<and> (\<not> isl (fst (install_from_spec api inst spec w)) \<longrightarrow>
        length (pip_calls (snd (install_from_spec api inst spec w))) = Suc (length (pip_calls w)))"
  by (auto simp: install_from_spec_def Let_def install_pypi_def install_git_def
        install_local_def run_pip_calls)

theorem install_from_spec_raises_witness:
  "fst (install_from_spec demo_api (PackageInstaller_init None)
          ((pypi_spec ''foo'' None)\<lparr>source := ''svn''\<rparr>) \<lparr>host = [], pip_calls = []\<rparr>)
     = Inl (InstallerError ''Unknown source type: svn'')
   \<and> snd (install_from_spec demo_api (PackageInstaller_init None)
          ((pypi_spec ''foo'' None)\<lparr>source := ''svn''\<rparr>) \<lparr>host = [], pip_calls = []\<rparr>)
     = \<lparr>host = [], pip_calls = []\<rparr>
   \<and> isl (fst (install_from_spec demo_api (PackageInstaller_init None)
          ((git_spec ''g'' [] None None True)) \<lparr>host = [], pip_calls = []\<rparr>))
   \<and> isl (fst (install_from_spec demo_api (PackageInstaller_init None)
          ((local_spec ''l'' ''/opt/p'' True)\<lparr>path := None\<rparr>) \<lparr>host = [], pip_calls = []\<rparr>))
   \<and> \<not> isl (fst (install_from_spec demo_api (PackageInstaller_init None)
          (pypi_spec ''foo'' None) \<lparr>host = [], pip_calls = []\<rparr>))
   \<and> length (pip_calls (snd (install_from_spec demo_api (PackageInstaller_init None)
          (pypi_spec ''foo'' None) \<lparr>host = [], pip_calls = []\<rparr>))) = 1"
  using install_from_spec_raises [of demo_api "PackageInstaller_init None"
          "(pypi_spec ''foo'' None)\<lparr>source := ''svn''\<rparr>" "\<lparr>host = [], pip_calls = []\<rparr>"]
        install_from_spec_raises [of demo_api "PackageInstaller_init None"
          "git_spec ''g'' [] None None True" "\<lparr>host = [], pip_calls = []\<rparr>"]
        install_from_spec_raises [of demo_api "PackageInstaller_init None"
          "(local_spec ''l'' ''/opt/p'' True)\<lparr>path := None\<rparr>" "\<lparr>host = [], pip_calls = []\<rparr>"]
        install_from_spec_raises [of demo_api "PackageInstaller_init None"
          "pypi_spec ''foo'' None" "\<lparr>host = [], pip_calls = []\<rparr>"]
  by (simp add: pypi_spec_def git_spec_def local_spec_def truthy_def install_from_spec_def)

text \<open>
  C8, as the code has it. A local spec is installed with \<^verbatim>\<open>-e\<close> exactly when its
  \<^verbatim>\<open>editable\<close> field is true (the default). A git spec and a pypi spec are installed
  with the command line \<^verbatim>\<open>install target\<close> and never with \<^verbatim>\<open>-e\<close>, whatever their
  \<^verbatim>\<open>editable\<close> field says.
\<close>

theorem install_from_spec_editable:
  "(source spec = ''local'' \<and> truthy (path spec) \<longrightarrow>
      pip_calls (snd (install_from_spec api inst spec w))
        = pip_calls w @ [[executable api, ''-m'', ''pip'', ''install'']
                          @ (if editable spec then [''-e''] else [])
                          @ [path_str api (fmt (path spec))]])
   \<and> (source spec = ''git'' \<and> truthy (url spec) \<longrightarrow>
      pip_calls (snd (install_from_spec api inst spec w))
        = pip_calls w @ [[executable api, ''-m'', ''pip'', ''install'',
                           (''git+'' @ fmt (url spec))
                           @ (if truthy (ref spec) then ''@'' @ fmt (ref spec) else [])
                           @ (if truthy (subdirectory spec)
                              then ''#subdirectory='' @ fmt (subdirectory spec) else [])]])
   \<and> (source spec = ''pypi'' \<longrightarrow>
      pip_calls (snd (install_from_spec api inst spec w))
        = pip_calls w @ [[executable api, ''-m'', ''pip'', ''install'',
                           py_or (package spec) (name spec)
                           @ (if truthy (version spec) then fmt (version spec) else [])]])"
  by (simp add: install_from_spec_def Let_def install_pypi_def install_git_def
        install_local_def run_pip_calls)

theorem install_from_spec_editable_witness:
  "pip_calls (snd (install_from_spec demo_api (PackageInstaller_init None)
       (local_spec ''l'' ''/opt/plugin'' True) \<lparr>host = [], pip_calls = []\<rparr>))
     = [[''python'', ''-m'', ''pip'', ''install'', ''-e'', ''/opt/plugin'']]
   \<and> pip_calls (snd (install_from_spec demo_api (PackageInstaller_init None)
       (local_spec ''l'' ''/opt/plugin'' False) \<lparr>host = [], pip_calls = []\<rparr>))
     = [[''python'', ''-m'', ''pip'', ''install'', ''/opt/plugin'']]
   \<and> pip_calls (snd (install_from_spec demo_api (PackageInstaller_init None)
       (git_spec ''g'' ''https://x/y.git'' (Some ''main'') None False) \<lparr>host = [], pip_calls = []\<rparr>))
     = [[''python'', ''-m'', ''pip'', ''install'', ''git+https://x/y.git@main'']]
   \<and> pip_calls (snd (install_from_spec demo_api (PackageInstaller_init None)
       (pypi_spec ''foo'' (Some ''>=1.0.0'')) \<lparr>host = [], pip_calls = []\<rparr>))
     = [[''python'', ''-m'', ''pip'', ''install'', ''foo>=1.0.0'']]"
  using install_from_spec_editable [of "local_spec ''l'' ''/opt/plugin'' True" demo_api
          "PackageInstaller_init None" "\<lparr>host = [], pip_calls = []\<rparr>"]
        install_from_spec_editable [of "local_spec ''l'' ''/opt/plugin'' False" demo_api
          "PackageInstaller_init None" "\<lparr>host = [], pip_calls = []\<rparr>"]
        install_from_spec_editable [of "git_spec ''g'' ''https://x/y.git'' (Some ''main'') None False"
          demo_api "PackageInstaller_init None" "\<lparr>host = [], pip_calls = []\<rparr>"]
        install_from_spec_editable [of "pypi_spec ''foo'' (Some ''>=1.0.0'')" demo_api
          "PackageInstaller_init None" "\<lparr>host = [], pip_calls = []\<rparr>"]
  by (simp add: pypi_spec_def git_spec_def local_spec_def truthy_def fmt_def py_or_def demo_api_def)

text \<open>
  C8 as stated says that a git spec with \<^verbatim>\<open>editable\<close> set to true is installed in
  editable mode. The command line of such a spec has no \<^verbatim>\<open>-e\<close>.
\<close>

theorem git_editable_ignored:
  "editable (git_spec ''g'' ''https://x/y.git'' None None True)
   \<and> pip_calls (snd (install_from_spec demo_api (PackageInstaller_init None)
         (git_spec ''g'' ''https://x/y.git'' None None True) \<lparr>host = [], pip_calls = []\<rparr>))
       = [[''python'', ''-m'', ''pip'', ''install'', ''git+https://x/y.git'']]"
  by (simp add: install_from_spec_def Let_def install_git_def run_pip_calls git_spec_def
        truthy_def fmt_def demo_api_def)

section \<open>Registry store\<close>

text \<open>
  What \<^verbatim>\<open>_load\<close> recovers from: no file, a \<^verbatim>\<open>JSONDecodeError\<close> of \<^verbatim>\<open>json.load\<close>, and a
  parsed value that is not a dictionary with the key \<^verbatim>\<open>plugins\<close>. In these cases the
  registry is constructed and is empty.
\<close>

lemma load_recovers:
  assumes "f = NoFile \<or> (\<exists>m. f = File (JSONDecodeError m)) \<or> f = File (Returns JsonNotDict)
           \<or> f = File (Returns JsonDictNoPlugins)"
  shows "\<exists>r. PluginRegistry_init f = Inr r \<and> (\<forall>pid. get_plugin r pid = None)
             \<and> get_all_plugins r = Map.empty"
  using assms
  by (auto simp: PluginRegistry_init_def create_empty_registry_def empty_registry_data_def
        get_plugin_def get_all_plugins_def)

text \<open>
  C7. The claim asks that a registry file that cannot be parsed as JSON gives an empty
  registry and never an exception. A file that is not valid UTF-8 cannot be parsed as
  JSON, and on it the constructor raises: \<^verbatim>\<open>_load\<close> catches \<^verbatim>\<open>JSONDecodeError\<close> only, and
  the decoding error of the read passes through it. No registry is constructed.
\<close>

theorem undecodable_registry_file_raises:
  "PluginRegistry_init undecodable_file = Inl (OtherException ''invalid start byte'')
   \<and> isl (PluginRegistry_init undecodable_file)"
  by (simp add: PluginRegistry_init_def undecodable_file_def)

subsection \<open>What the mutators do to one record\<close>

lemma get_plugin_register:
  "get_plugin (register_plugin r pid nm src pkg ver st eps err) q =
     (if q = pid then
        Some \<lparr>rec_name = nm, rec_source = src, rec_package = pkg, rec_version = ver, status = st,
              entry_points = (case eps of None \<Rightarrow> [] | Some l \<Rightarrow> l),
              error = (if truthy err then err else None)\<rparr>
      else get_plugin r q)"
  by (simp add: get_plugin_def register_plugin_def set_plugins_def)

lemma get_plugin_update_status:
  "get_plugin (update_status r pid st err) q =
     (if q = pid then
        map_option (\<lambda>p. p\<lparr>status := st,
                           error := (if truthy err then err
                                     else if error p \<noteq> None \<and> st = INSTALLED then None
                                     else error p)\<rparr>) (get_plugin r pid)
      else get_plugin r q)"
  by (simp add: get_plugin_def update_status_def set_plugins_def split: option.splits)









section \<open>Orchestrator\<close>

subsection \<open>The registry under the loop's calls\<close>

lemma is_installed_register:
  "is_installed (register_plugin r pid nm src pkg ver st eps err) q =
     (if q = pid then st = INSTALLED else is_installed r q)"
  by (simp add: is_installed_def get_plugin_register)

lemma is_installed_update_status:
  "is_installed (update_status r pid st err) q =
     (if q = pid then get_plugin r pid \<noteq> None \<and> st = INSTALLED else is_installed r q)"
  by (cases "get_plugin r pid") (simp_all add: is_installed_def get_plugin_update_status)

lemma get_plugin_update_entry_points:
  "get_plugin (update_entry_points r pid eps) q =
     (if q = pid then map_option (\<lambda>p. p\<lparr>entry_points := eps\<rparr>) (get_plugin r pid)
      else get_plugin r q)"
  by (simp add: get_plugin_def update_entry_points_def set_plugins_def split: option.splits)

lemma attribute_entry_point_status:
  "map_option status (get_plugin (attribute_entry_point g ep r) q) = map_option status (get_plugin r q)"
  by (cases "get_plugin r q")
    (auto simp: attribute_entry_point_def get_plugin_update_entry_points split: option.splits)

lemma attribute_entry_point_error:
  "map_option error (get_plugin (attribute_entry_point g ep r) q) = map_option error (get_plugin r q)"
  by (cases "get_plugin r q")
    (auto simp: attribute_entry_point_def get_plugin_update_entry_points split: option.splits)

lemma fold_attribute_status:
  "map_option status (get_plugin (fold (attribute_entry_point g) eps r) q)
     = map_option status (get_plugin r q)"
  by (induction eps arbitrary: r) (simp_all add: attribute_entry_point_status)

lemma fold_attribute_error:
  "map_option error (get_plugin (fold (attribute_entry_point g) eps r) q)
     = map_option error (get_plugin r q)"
  by (induction eps arbitrary: r) (simp_all add: attribute_entry_point_error)

lemma fold_groups_status:
  "map_option status (get_plugin (fold (\<lambda>ge. fold (attribute_entry_point (fst ge)) (snd ge)) ges r) q)
     = map_option status (get_plugin r q)"
  by (induction ges arbitrary: r) (simp_all add: fold_attribute_status)

lemma fold_groups_error:
  "map_option error (get_plugin (fold (\<lambda>ge. fold (attribute_entry_point (fst ge)) (snd ge)) ges r) q)
     = map_option error (get_plugin r q)"
  by (induction ges arbitrary: r) (simp_all add: fold_attribute_error)

lemma update_registry_entry_points_status:
  "map_option status (get_plugin (update_registry_entry_points api snap h r) q)
     = map_option status (get_plugin r q)"
  by (simp add: update_registry_entry_points_def fold_groups_status)

lemma update_registry_entry_points_error:
  "map_option error (get_plugin (update_registry_entry_points api snap h r) q)
     = map_option error (get_plugin r q)"
  by (simp add: update_registry_entry_points_def fold_groups_error)

lemma is_installed_status:
  "is_installed r q \<longleftrightarrow> map_option status (get_plugin r q) = Some INSTALLED"
  by (cases "get_plugin r q") (simp_all add: is_installed_def)

lemma update_registry_entry_points_installed:
  "is_installed (update_registry_entry_points api snap h r) q = is_installed r q"
  by (simp add: is_installed_status update_registry_entry_points_status)

subsection \<open>One iteration\<close>

lemma install_one_skip:
  "is_installed (st_registry st) (plugin_id spec) \<Longrightarrow>
     install_one api inst spec st
       = st\<lparr>results := (results st)(plugin_id spec \<mapsto> (True, ''Already installed''))\<rparr>"
  by (simp add: install_one_def)

lemma install_one_other:
  "q \<noteq> plugin_id spec \<Longrightarrow>
     results (install_one api inst spec st) q = results st q
     \<and> get_plugin (st_registry (install_one api inst spec st)) q = get_plugin (st_registry st) q"
  by (simp add: install_one_def Let_def record_failure_def get_plugin_register
        get_plugin_update_status split: sum.splits)

lemma install_one_cases:
  obtains
    (skip) "is_installed (st_registry st) (plugin_id spec)"
      "install_one api inst spec st
         = st\<lparr>results := (results st)(plugin_id spec \<mapsto> (True, ''Already installed''))\<rparr>"
  | (installed) r w ver where
      "\<not> is_installed (st_registry st) (plugin_id spec)"
      "install_one api inst spec st
         = st\<lparr>st_registry := register_plugin r (plugin_id spec) (name spec) (source spec)
                                 (package spec) ver INSTALLED None None,
               st_world := w,
               results := (results st)(plugin_id spec \<mapsto>
                             (True, ''Installed '' @ py_or ver ''successfully'')),
               installed_any := True\<rparr>"
  | (failed) r w msg where
      "\<not> is_installed (st_registry st) (plugin_id spec)"
      "install_one api inst spec st
         = st\<lparr>st_registry := update_status r (plugin_id spec) FAILED (Some msg),
               st_world := w,
               results := (results st)(plugin_id spec \<mapsto> (False, msg))\<rparr>"
proof (cases "is_installed (st_registry st) (plugin_id spec)")
  case True
  then show ?thesis by (intro skip) (simp_all add: install_one_def)
next
  case no: False
  show ?thesis
  proof (cases "fst (install_from_spec api inst spec (st_world st))")
    case (Inl e)
    with no show ?thesis
      by (intro failed) (simp_all add: install_one_def Let_def record_failure_def)
  next
    case (Inr sm)
    show ?thesis
    proof (cases "fst sm")
      case False
      with no Inr show ?thesis
        by (intro failed) (simp_all add: install_one_def Let_def record_failure_def)
    next
      case True
      show ?thesis
      proof (cases "get_installed_version api (snd (install_from_spec api inst spec (st_world st)))
                      (py_or (package spec) (name spec))")
        case (Inl e)
        with no Inr True show ?thesis
          by (intro failed) (simp_all add: install_one_def Let_def record_failure_def)
      next
        case ver: (Inr v)
        with no Inr True show ?thesis
          by (intro installed) (simp_all add: install_one_def Let_def)
      qed
    qed
  qed
qed

lemma install_one_success_installed:
  assumes "results (install_one api inst spec st) (plugin_id spec) = Some (True, msg)"
  shows "is_installed (st_registry (install_one api inst spec st)) (plugin_id spec)"
proof (cases rule: install_one_cases [of st spec api inst])
  case skip
  then show ?thesis by simp
next
  case (installed r w ver)
  then show ?thesis by (simp add: is_installed_register)
next
  case (failed r w m)
  with assms show ?thesis by simp
qed

lemma install_one_dom:
  "plugin_id spec \<in> dom (results (install_one api inst spec st))"
  by (simp add: install_one_def Let_def record_failure_def split: sum.splits)

lemma install_one_failure:
  assumes "\<not> is_installed (st_registry st) (plugin_id spec)"
    and "(\<exists>e. fst (install_from_spec api inst spec (st_world st)) = Inl e \<and> msg = str_exn e)
         \<or> fst (install_from_spec api inst spec (st_world st)) = Inr (False, msg)
         \<or> (\<exists>out e. fst (install_from_spec api inst spec (st_world st)) = Inr (True, out)
               \<and> get_installed_version api (snd (install_from_spec api inst spec (st_world st)))
                    (py_or (package spec) (name spec)) = Inl e
               \<and> msg = str_exn e)"
  shows "results (install_one api inst spec st) (plugin_id spec) = Some (False, msg)"
    and "map_option status (get_plugin (st_registry (install_one api inst spec st)) (plugin_id spec))
           = Some FAILED"
    and "map_option error (get_plugin (st_registry (install_one api inst spec st)) (plugin_id spec))
           = Some (if msg = [] then None else Some msg)"
  using assms
  by (auto simp: install_one_def Let_def record_failure_def get_plugin_register
        get_plugin_update_status truthy_def)

subsection \<open>The loop and the whole pass\<close>

lemma install_loop_Nil: "install_loop api inst [] st = st"
  by (simp add: install_loop_def)

lemma install_loop_Cons:
  "install_loop api inst (s # ss) st = install_loop api inst ss (install_one api inst s st)"
  by (simp add: install_loop_def)

lemma install_loop_append:
  "install_loop api inst (xs @ ys) st = install_loop api inst ys (install_loop api inst xs st)"
  by (simp add: install_loop_def)

lemma is_installed_cong:
  "get_plugin r q = get_plugin r' q \<Longrightarrow> is_installed r q = is_installed r' q"
  by (simp add: is_installed_def)

lemma install_one_keeps_success:
  assumes inv: "\<And>q m. results st q = Some (True, m) \<Longrightarrow> is_installed (st_registry st) q"
    and res: "results (install_one api inst spec st) q = Some (True, m)"
  shows "is_installed (st_registry (install_one api inst spec st)) q"
proof (cases "q = plugin_id spec")
  case True
  with res show ?thesis by (simp add: install_one_success_installed)
next
  case False
  then have same: "results (install_one api inst spec st) q = results st q"
    and reg: "get_plugin (st_registry (install_one api inst spec st)) q
                = get_plugin (st_registry st) q"
    by (simp_all add: install_one_other)
  from res same have "is_installed (st_registry st) q" by (simp add: inv)
  with reg show ?thesis by (simp add: is_installed_cong [OF reg])
qed

lemma install_loop_keeps_success:
  assumes "\<And>q m. results st q = Some (True, m) \<Longrightarrow> is_installed (st_registry st) q"
    and "results (install_loop api inst specs st) q = Some (True, m)"
  shows "is_installed (st_registry (install_loop api inst specs st)) q"
  using assms
proof (induction specs arbitrary: st)
  case Nil
  then show ?case by (simp add: install_loop_Nil)
next
  case (Cons s ss)
  have step: "\<And>q m. results (install_one api inst s st) q = Some (True, m)
                \<Longrightarrow> is_installed (st_registry (install_one api inst s st)) q"
    using Cons.prems(1) by (rule install_one_keeps_success)
  from Cons.prems(2) have "results (install_loop api inst ss (install_one api inst s st)) q
                             = Some (True, m)"
    by (simp add: install_loop_Cons)
  with step have "is_installed (st_registry (install_loop api inst ss (install_one api inst s st))) q"
    by (rule Cons.IH)
  then show ?case by (simp add: install_loop_Cons)
qed

lemma install_loop_skip:
  assumes "\<And>s. s \<in> set specs \<Longrightarrow> is_installed (st_registry st) (plugin_id s)"
  shows "st_registry (install_loop api inst specs st) = st_registry st
         \<and> st_world (install_loop api inst specs st) = st_world st
         \<and> installed_any (install_loop api inst specs st) = installed_any st
         \<and> results (install_loop api inst specs st) q
             = (if q \<in> plugin_id ` set specs then Some (True, ''Already installed'')
                else results st q)"
  using assms
proof (induction specs arbitrary: st)
  case Nil
  then show ?case by (simp add: install_loop_Nil)
next
  case (Cons s ss)
  let ?st = "st\<lparr>results := (results st)(plugin_id s \<mapsto> (True, ''Already installed''))\<rparr>"
  from Cons.prems have one: "install_one api inst s st = ?st"
    by (simp add: install_one_skip)
  have "\<And>t. t \<in> set ss \<Longrightarrow> is_installed (st_registry ?st) (plugin_id t)"
    using Cons.prems by simp
  then have "st_registry (install_loop api inst ss ?st) = st_registry ?st
         \<and> st_world (install_loop api inst ss ?st) = st_world ?st
         \<and> installed_any (install_loop api inst ss ?st) = installed_any ?st
         \<and> results (install_loop api inst ss ?st) q
             = (if q \<in> plugin_id ` set ss then Some (True, ''Already installed'')
                else results ?st q)"
    by (rule Cons.IH)
  then show ?case by (simp add: install_loop_Cons one)
qed

lemma install_loop_other:
  "q \<notin> plugin_id ` set specs \<Longrightarrow>
     results (install_loop api inst specs st) q = results st q
     \<and> get_plugin (st_registry (install_loop api inst specs st)) q = get_plugin (st_registry st) q"
proof (induction specs arbitrary: st)
  case Nil
  then show ?case by (simp add: install_loop_Nil)
next
  case (Cons s ss)
  then have "q \<noteq> plugin_id s" and "q \<notin> plugin_id ` set ss" by auto
  with Cons.IH [of "install_one api inst s st"] show ?case
    by (simp add: install_loop_Cons install_one_other)
qed

lemma install_one_dom_mono:
  "q \<in> dom (results st) \<Longrightarrow> q \<in> dom (results (install_one api inst spec st))"
proof (cases "q = plugin_id spec")
  case True
  then show ?thesis by (simp add: install_one_dom)
next
  case False
  assume "q \<in> dom (results st)"
  with False show ?thesis using install_one_other [of q spec api inst st] by (auto simp: dom_def)
qed

lemma install_loop_dom_mono:
  "q \<in> dom (results st) \<Longrightarrow> q \<in> dom (results (install_loop api inst specs st))"
proof (induction specs arbitrary: st)
  case Nil
  then show ?case by (simp add: install_loop_Nil)
next
  case (Cons s ss)
  from Cons.prems have "q \<in> dom (results (install_one api inst s st))"
    by (rule install_one_dom_mono)
  then show ?case by (simp add: install_loop_Cons Cons.IH)
qed

lemma install_loop_dom:
  "s \<in> set specs \<Longrightarrow> plugin_id s \<in> dom (results (install_loop api inst specs st))"
proof (induction specs arbitrary: st)
  case Nil
  then show ?case by simp
next
  case (Cons a ss)
  show ?case
  proof (cases "s = a")
    case True
    have "plugin_id a \<in> dom (results (install_one api inst a st))" by (rule install_one_dom)
    then have "plugin_id a \<in> dom (results (install_loop api inst ss (install_one api inst a st)))"
      by (rule install_loop_dom_mono)
    with True show ?thesis by (simp add: install_loop_Cons)
  next
    case False
    with Cons.prems have "s \<in> set ss" by simp
    then show ?thesis by (simp add: install_loop_Cons Cons.IH)
  qed
qed

lemma install_plugins_results:
  "fst (install_plugins api m)
     = results (install_loop api (installer m) (get_enabled_plugins (config m))
                  (initial_pass_state m))"
  by (simp add: install_plugins_def Let_def install_loop_Nil initial_pass_state_def)

lemma install_plugins_status:
  "map_option status (get_plugin (registry (snd (install_plugins api m))) q)
     = map_option status (get_plugin (st_registry (install_loop api (installer m)
          (get_enabled_plugins (config m)) (initial_pass_state m))) q)"
  by (simp add: install_plugins_def Let_def install_loop_Nil initial_pass_state_def
        update_registry_entry_points_status)

lemma install_plugins_error:
  "map_option error (get_plugin (registry (snd (install_plugins api m))) q)
     = map_option error (get_plugin (st_registry (install_loop api (installer m)
          (get_enabled_plugins (config m)) (initial_pass_state m))) q)"
  by (simp add: install_plugins_def Let_def install_loop_Nil initial_pass_state_def
        update_registry_entry_points_error)

lemma install_plugins_config:
  "config (snd (install_plugins api m)) = config m
   \<and> installer (snd (install_plugins api m)) = installer m"
  by (simp add: install_plugins_def Let_def)

lemma initial_pass_state_simps:
  "st_registry (initial_pass_state m) = registry m"
  "st_world (initial_pass_state m) = world m"
  "results (initial_pass_state m) = Map.empty"
  "installed_any (initial_pass_state m) = False"
  by (simp_all add: initial_pass_state_def)

lemma install_plugins_all_installed:
  assumes "\<And>s. s \<in> set (get_enabled_plugins (config m)) \<Longrightarrow> is_installed (registry m) (plugin_id s)"
  shows "world (snd (install_plugins api m)) = world m"
    and "registry (snd (install_plugins api m)) = registry m"
    and "fst (install_plugins api m) q
           = (if q \<in> plugin_id ` set (get_enabled_plugins (config m))
              then Some (True, ''Already installed'') else None)"
proof -
  let ?specs = "get_enabled_plugins (config m)"
  let ?st = "install_loop api (installer m) ?specs (initial_pass_state m)"
  have "\<And>s. s \<in> set ?specs \<Longrightarrow> is_installed (st_registry (initial_pass_state m)) (plugin_id s)"
    using assms by (simp add: initial_pass_state_simps)
  then have skip: "st_registry ?st = st_registry (initial_pass_state m)
         \<and> st_world ?st = st_world (initial_pass_state m)
         \<and> installed_any ?st = installed_any (initial_pass_state m)
         \<and> results ?st q
             = (if q \<in> plugin_id ` set ?specs then Some (True, ''Already installed'')
                else results (initial_pass_state m) q)"
    by (rule install_loop_skip)
  then have any: "\<not> installed_any ?st" by (simp add: initial_pass_state_simps)
  from skip any show "world (snd (install_plugins api m)) = world m"
    by (simp add: install_plugins_def Let_def initial_pass_state_simps)
  from skip any show "registry (snd (install_plugins api m)) = registry m"
    by (simp add: install_plugins_def Let_def initial_pass_state_simps)
  from skip show "fst (install_plugins api m) q
           = (if q \<in> plugin_id ` set ?specs then Some (True, ''Already installed'') else None)"
    by (simp add: install_plugins_results initial_pass_state_simps)
qed

lemma install_plugins_success_installed:
  assumes "fst (install_plugins api m) q = Some (True, msg)"
  shows "is_installed (registry (snd (install_plugins api m))) q"
proof -
  let ?st = "install_loop api (installer m) (get_enabled_plugins (config m)) (initial_pass_state m)"
  have "\<And>q m'. results (initial_pass_state m) q = Some (True, m')
          \<Longrightarrow> is_installed (st_registry (initial_pass_state m)) q"
    by (simp add: initial_pass_state_simps)
  moreover from assms have "results ?st q = Some (True, msg)"
    by (simp add: install_plugins_results)
  ultimately have "is_installed (st_registry ?st) q"
    by (rule install_loop_keeps_success)
  then show ?thesis
    by (simp add: is_installed_status install_plugins_status)
qed

text \<open>
  C1. Suppose a first call of \<^verbatim>\<open>install_plugins\<close> returned a success for the
  identifier of every enabled spec. A second call on the manager the first call left,
  with the same host operations, leaves the world as it was (the log of package-manager
  command lines and the host state are unchanged, so the package manager is not
  invoked), leaves the registry as it was, and returns
  \<^verbatim>\<open>(True, "Already installed")\<close> for the identifier of every enabled spec and for no
  other key.
\<close>

theorem install_plugins_idempotent:
  assumes "\<forall>spec \<in> set (get_enabled_plugins (config m)).
             \<exists>msg. fst (install_plugins api m) (plugin_id spec) = Some (True, msg)"
  shows "world (snd (install_plugins api (snd (install_plugins api m))))
           = world (snd (install_plugins api m))
         \<and> registry (snd (install_plugins api (snd (install_plugins api m))))
           = registry (snd (install_plugins api m))
         \<and> (\<forall>spec \<in> set (get_enabled_plugins (config m)).
               fst (install_plugins api (snd (install_plugins api m))) (plugin_id spec)
                 = Some (True, ''Already installed''))
         \<and> dom (fst (install_plugins api (snd (install_plugins api m))))
           = plugin_id ` set (get_enabled_plugins (config m))"
proof -
  let ?m1 = "snd (install_plugins api m)"
  have cfg: "get_enabled_plugins (config ?m1) = get_enabled_plugins (config m)"
    by (simp add: install_plugins_config)
  have inst: "\<And>s. s \<in> set (get_enabled_plugins (config ?m1))
                \<Longrightarrow> is_installed (registry ?m1) (plugin_id s)"
  proof -
    fix s assume "s \<in> set (get_enabled_plugins (config ?m1))"
    with cfg assms obtain msg where "fst (install_plugins api m) (plugin_id s) = Some (True, msg)"
      by auto
    then show "is_installed (registry ?m1) (plugin_id s)"
      by (rule install_plugins_success_installed)
  qed
  have w: "world (snd (install_plugins api ?m1)) = world ?m1"
    using inst by (rule install_plugins_all_installed(1))
  have r: "registry (snd (install_plugins api ?m1)) = registry ?m1"
    using inst by (rule install_plugins_all_installed(2))
  have res: "\<And>q. fst (install_plugins api ?m1) q
           = (if q \<in> plugin_id ` set (get_enabled_plugins (config m))
              then Some (True, ''Already installed'') else None)"
    using install_plugins_all_installed(3) [of ?m1 api, OF inst] cfg by simp
  from res have d: "dom (fst (install_plugins api ?m1))
                      = plugin_id ` set (get_enabled_plugins (config m))"
    by (auto simp: dom_def)
  from w r res d show ?thesis by simp
qed

theorem install_plugins_idempotent_witness:
  "pip_calls (world (snd (install_plugins demo_api
       (snd (install_plugins demo_api (demo_manager demo_config))))))
     = [[''python'', ''-m'', ''pip'', ''install'', ''foo>=1.0.0''],
        [''python'', ''-m'', ''pip'', ''install'', ''-e'', ''/opt/plugin'']]
   \<and> fst (install_plugins demo_api (snd (install_plugins demo_api (demo_manager demo_config))))
        ''foo'' = Some (True, ''Already installed'')
   \<and> fst (install_plugins demo_api (snd (install_plugins demo_api (demo_manager demo_config))))
        ''loc'' = Some (True, ''Already installed'')
   \<and> fst (install_plugins demo_api (snd (install_plugins demo_api (demo_manager demo_config))))
        ''bar'' = None"
proof -
  let ?m = "demo_manager demo_config"
  let ?specs = "get_enabled_plugins (config ?m)"
  have ids: "map plugin_id ?specs = [''foo'', ''loc'']"
    by code_simp
  then have img: "plugin_id ` set ?specs = {''foo'', ''loc''}"
    by (metis list.set_map list.simps(15) empty_set)
  have foo: "fst (install_plugins demo_api ?m) ''foo'' = Some (True, ''Installed successfully'')"
    by code_simp
  have loc: "fst (install_plugins demo_api ?m) ''loc'' = Some (True, ''Installed successfully'')"
    by code_simp
  have calls: "pip_calls (world (snd (install_plugins demo_api ?m)))
     = [[''python'', ''-m'', ''pip'', ''install'', ''foo>=1.0.0''],
        [''python'', ''-m'', ''pip'', ''install'', ''-e'', ''/opt/plugin'']]"
    by code_simp
  have "\<forall>q \<in> plugin_id ` set ?specs. \<exists>msg. fst (install_plugins demo_api ?m) q = Some (True, msg)"
    unfolding img using foo loc by simp
  then have h: "\<forall>spec \<in> set ?specs.
                  \<exists>msg. fst (install_plugins demo_api ?m) (plugin_id spec) = Some (True, msg)"
    by blast
  note th = install_plugins_idempotent [OF h]
  from th have w: "world (snd (install_plugins demo_api (snd (install_plugins demo_api ?m))))
                     = world (snd (install_plugins demo_api ?m))"
    by blast
  from th have "\<forall>spec \<in> set ?specs.
      fst (install_plugins demo_api (snd (install_plugins demo_api ?m))) (plugin_id spec)
        = Some (True, ''Already installed'')"
    by blast
  then have "\<forall>q \<in> plugin_id ` set ?specs.
      fst (install_plugins demo_api (snd (install_plugins demo_api ?m))) q
        = Some (True, ''Already installed'')"
    by blast
  then have a: "fst (install_plugins demo_api (snd (install_plugins demo_api ?m))) ''foo''
                  = Some (True, ''Already installed'')"
    and b: "fst (install_plugins demo_api (snd (install_plugins demo_api ?m))) ''loc''
                  = Some (True, ''Already installed'')"
    unfolding img by simp_all
  from th have "dom (fst (install_plugins demo_api (snd (install_plugins demo_api ?m))))
                  = plugin_id ` set ?specs"
    by blast
  then have "''bar'' \<notin> dom (fst (install_plugins demo_api (snd (install_plugins demo_api ?m))))"
    unfolding img by simp
  then have c: "fst (install_plugins demo_api (snd (install_plugins demo_api ?m))) ''bar'' = None"
    by (metis domIff)
  from w calls a b c show ?thesis by simp
qed

lemma install_one_world:
  "\<not> is_installed (st_registry st) (plugin_id spec) \<Longrightarrow>
     st_world (install_one api inst spec st) = snd (install_from_spec api inst spec (st_world st))"
  by (simp add: install_one_def Let_def record_failure_def split: sum.splits)

text \<open>
  Fault isolation in the loop. Take any enabled spec of the list that is not yet
  installed when its turn comes and whose attempt fails with a message:
  \<^verbatim>\<open>install_from_spec\<close> raises, or it returns a failure, or the version lookup after a
  successful install raises. Right after its iteration the result for its identifier is
  the pair of false and the message, and its registry record has the status failed; the
  record's error is the message when the message is not empty, and the error key is
  absent when it is empty. The loop goes on: the results of the pass are those of
  running the remaining specs from the state the failure left, every later spec has a
  result, when no later spec has the same identifier the failure is what the pass
  returns and what the registry holds for it, and every later spec that is not installed
  when its turn comes is handed to \<^verbatim>\<open>install_from_spec\<close> on the world its predecessors
  left. \<^verbatim>\<open>install_plugins\<close> is a total function here: every exception of the \<^verbatim>\<open>try\<close>
  block is a value that the handler turns into a result.
\<close>

lemma install_plugins_fault_isolation:
  assumes "get_enabled_plugins (config m) = pre @ spec # post"
    and "st = install_loop api (installer m) pre (initial_pass_state m)"
    and "\<not> is_installed (st_registry st) (plugin_id spec)"
    and "(\<exists>e. fst (install_from_spec api (installer m) spec (st_world st)) = Inl e \<and> msg = str_exn e)
         \<or> fst (install_from_spec api (installer m) spec (st_world st)) = Inr (False, msg)
         \<or> (\<exists>out e. fst (install_from_spec api (installer m) spec (st_world st)) = Inr (True, out)
               \<and> get_installed_version api
                    (snd (install_from_spec api (installer m) spec (st_world st)))
                    (py_or (package spec) (name spec)) = Inl e
               \<and> msg = str_exn e)"
  shows "results (install_one api (installer m) spec st) (plugin_id spec) = Some (False, msg)
     \<and> map_option status
          (get_plugin (st_registry (install_one api (installer m) spec st)) (plugin_id spec))
         = Some FAILED
     \<and> map_option error
          (get_plugin (st_registry (install_one api (installer m) spec st)) (plugin_id spec))
         = Some (if msg = [] then None else Some msg)
     \<and> fst (install_plugins api m)
         = results (install_loop api (installer m) post (install_one api (installer m) spec st))
     \<and> (\<forall>s \<in> set post. plugin_id s \<in> dom (fst (install_plugins api m)))
     \<and> (plugin_id spec \<notin> plugin_id ` set post \<longrightarrow>
          fst (install_plugins api m) (plugin_id spec) = Some (False, msg)
          \<and> map_option status (get_plugin (registry (snd (install_plugins api m))) (plugin_id spec))
              = Some FAILED
          \<and> map_option error (get_plugin (registry (snd (install_plugins api m))) (plugin_id spec))
              = Some (if msg = [] then None else Some msg))
     \<and> (\<forall>mid s rest. post = mid @ s # rest
            \<and> \<not> is_installed (st_registry (install_loop api (installer m) mid
                   (install_one api (installer m) spec st))) (plugin_id s)
          \<longrightarrow> st_world (install_loop api (installer m) (mid @ [s])
                        (install_one api (installer m) spec st))
              = snd (install_from_spec api (installer m) s
                      (st_world (install_loop api (installer m) mid
                         (install_one api (installer m) spec st)))))"
proof -
  let ?inst = "installer m"
  let ?st' = "install_one api ?inst spec st"
  let ?pid = "plugin_id spec"
  have r: "results ?st' ?pid = Some (False, msg)"
    using assms(3,4) by (rule install_one_failure(1))
  have s: "map_option status (get_plugin (st_registry ?st') ?pid) = Some FAILED"
    using assms(3,4) by (rule install_one_failure(2))
  have e: "map_option error (get_plugin (st_registry ?st') ?pid)
             = Some (if msg = [] then None else Some msg)"
    using assms(3,4) by (rule install_one_failure(3))
  have loop: "install_loop api ?inst (get_enabled_plugins (config m)) (initial_pass_state m)
                = install_loop api ?inst post ?st'"
    by (simp add: assms(1,2) install_loop_append install_loop_Cons)
  have f: "fst (install_plugins api m) = results (install_loop api ?inst post ?st')"
    by (simp add: install_plugins_results loop)
  have d: "\<forall>s \<in> set post. plugin_id s \<in> dom (fst (install_plugins api m))"
    by (simp add: f install_loop_dom)
  have last: "?pid \<notin> plugin_id ` set post \<longrightarrow>
          fst (install_plugins api m) ?pid = Some (False, msg)
          \<and> map_option status (get_plugin (registry (snd (install_plugins api m))) ?pid)
              = Some FAILED
          \<and> map_option error (get_plugin (registry (snd (install_plugins api m))) ?pid)
              = Some (if msg = [] then None else Some msg)"
  proof
    assume "?pid \<notin> plugin_id ` set post"
    then have keep: "results (install_loop api ?inst post ?st') ?pid = results ?st' ?pid
        \<and> get_plugin (st_registry (install_loop api ?inst post ?st')) ?pid
            = get_plugin (st_registry ?st') ?pid"
      by (rule install_loop_other)
    with r s e show "fst (install_plugins api m) ?pid = Some (False, msg)
          \<and> map_option status (get_plugin (registry (snd (install_plugins api m))) ?pid)
              = Some FAILED
          \<and> map_option error (get_plugin (registry (snd (install_plugins api m))) ?pid)
              = Some (if msg = [] then None else Some msg)"
      by (simp add: f install_plugins_status install_plugins_error loop)
  qed
  have attempted: "\<forall>mid s rest. post = mid @ s # rest
            \<and> \<not> is_installed (st_registry (install_loop api ?inst mid ?st')) (plugin_id s)
          \<longrightarrow> st_world (install_loop api ?inst (mid @ [s]) ?st')
              = snd (install_from_spec api ?inst s (st_world (install_loop api ?inst mid ?st')))"
    by (simp add: install_loop_append install_loop_Cons install_loop_Nil install_one_world)
  from r s e f d last attempted show ?thesis by (intro conjI)
qed

lemma install_plugins_fault_isolation_example:
  "fst (install_plugins demo_api (demo_manager failing_config)) ''bad-plugin''
     = Some (False, ''network error'')
   \<and> fst (install_plugins demo_api (demo_manager failing_config)) ''g''
     = Some (False, ''Git plugin '' @ sq @ ''g'' @ sq @ '' missing URL'')
   \<and> map_option status (get_plugin (registry (snd (install_plugins demo_api
         (demo_manager failing_config)))) ''g'') = Some FAILED
   \<and> map_option error (get_plugin (registry (snd (install_plugins demo_api
         (demo_manager failing_config)))) ''g'')
     = Some (Some (''Git plugin '' @ sq @ ''g'' @ sq @ '' missing URL''))
   \<and> fst (install_plugins demo_api (demo_manager failing_config)) ''foo''
     = Some (True, ''Installed 1.0.0'')
   \<and> pip_calls (world (snd (install_plugins demo_api (demo_manager failing_config))))
     = [[''python'', ''-m'', ''pip'', ''install'', ''bad-plugin''],
        [''python'', ''-m'', ''pip'', ''install'', ''foo'']]"
proof -
  let ?m = "demo_manager failing_config"
  let ?msg = "''Git plugin '' @ sq @ ''g'' @ sq @ '' missing URL''"
  let ?st = "install_loop demo_api (installer ?m) [pypi_spec ''bad-plugin'' None]
               (initial_pass_state ?m)"
  let ?spec = "git_spec ''g'' [] None None True"
  have cfg: "get_enabled_plugins (config ?m)
               = [pypi_spec ''bad-plugin'' None] @ ?spec # [pypi_spec ''foo'' None]"
    by (simp add: demo_manager_def failing_config_def get_enabled_plugins_def pypi_spec_def
          git_spec_def)
  have ni: "\<not> is_installed (st_registry ?st) (plugin_id ?spec)"
    by code_simp
  have raise: "fst (install_from_spec demo_api (installer ?m) ?spec (st_world ?st))
                 = Inl (InstallerError ?msg)"
    by (simp add: install_from_spec_def git_spec_def truthy_def)
  then have f: "(\<exists>e. fst (install_from_spec demo_api (installer ?m) ?spec (st_world ?st)) = Inl e
                   \<and> ?msg = str_exn e)
         \<or> fst (install_from_spec demo_api (installer ?m) ?spec (st_world ?st)) = Inr (False, ?msg)
         \<or> (\<exists>out e. fst (install_from_spec demo_api (installer ?m) ?spec (st_world ?st))
                        = Inr (True, out)
               \<and> get_installed_version demo_api
                    (snd (install_from_spec demo_api (installer ?m) ?spec (st_world ?st)))
                    (py_or (package ?spec) (name ?spec)) = Inl e
               \<and> ?msg = str_exn e)"
    by simp
  have pid: "plugin_id ?spec = ''g''" by (simp add: plugin_id_def git_spec_def)
  have foo: "plugin_id (pypi_spec ''foo'' None) = ''foo''"
    by (simp add: plugin_id_def pypi_spec_def truthy_def fmt_def)
  have later: "plugin_id ?spec \<notin> plugin_id ` set [pypi_spec ''foo'' None]"
    by (simp add: pid foo)
  have nonempty: "?msg \<noteq> []" by simp
  note th = install_plugins_fault_isolation [OF cfg refl ni f]
  note final = th [THEN conjunct2, THEN conjunct2, THEN conjunct2, THEN conjunct2,
                   THEN conjunct2, THEN conjunct1, rule_format, OF later]
  from final have g: "fst (install_plugins demo_api ?m) ''g'' = Some (False, ?msg)"
    unfolding pid by (rule conjunct1)
  from final have gs: "map_option status
        (get_plugin (registry (snd (install_plugins demo_api ?m))) ''g'') = Some FAILED"
    unfolding pid by (rule conjunct2 [THEN conjunct1])
  from final have "map_option error
        (get_plugin (registry (snd (install_plugins demo_api ?m))) ''g'')
          = Some (if ?msg = [] then None else Some ?msg)"
    unfolding pid by (rule conjunct2 [THEN conjunct2])
  with nonempty have ge: "map_option error
        (get_plugin (registry (snd (install_plugins demo_api ?m))) ''g'') = Some (Some ?msg)"
    by (simp only: if_False)
  have d: "fst (install_plugins demo_api ?m) ''foo'' = Some (True, ''Installed 1.0.0'')"
    by code_simp
  have calls: "pip_calls (world (snd (install_plugins demo_api ?m)))
     = [[''python'', ''-m'', ''pip'', ''install'', ''bad-plugin''],
        [''python'', ''-m'', ''pip'', ''install'', ''foo'']]"
    by code_simp
  have bad: "fst (install_plugins demo_api ?m) ''bad-plugin'' = Some (False, ''network error'')"
    by code_simp
  from bad g gs ge d calls show ?thesis by (simp only: simp_thms)
qed

text \<open>
  C2. The claim asks that a failed attempt sets the registry status to failed with the
  error text. When the package manager exits with a non-zero code and prints nothing,
  the message is empty: the pass returns the pair of false and the empty message, the
  record gets the status failed, and \<^verbatim>\<open>update_status\<close>, which is called with
  \<^verbatim>\<open>error=message\<close>, stores nothing, so the record has no error key.
\<close>

theorem empty_message_not_recorded:
  "fst (install_plugins demo_api (demo_manager [pypi_spec ''mute-plugin'' None])) ''mute-plugin''
     = Some (False, [])
   \<and> map_option status (get_plugin (registry (snd (install_plugins demo_api
         (demo_manager [pypi_spec ''mute-plugin'' None])))) ''mute-plugin'') = Some FAILED
   \<and> map_option error (get_plugin (registry (snd (install_plugins demo_api
         (demo_manager [pypi_spec ''mute-plugin'' None])))) ''mute-plugin'') = Some None"
  by code_simp

end
